theory Spec2Isabelle
  imports Complex_Main "HOL-Library.Word"
begin

section \<open>Single-precision values and three-vectors\<close>

text \<open>
  The sensor core computes on C++ \<^verbatim>\<open>float\<close> values. A value is either finite, one of
  the two infinities, or not-a-number. Finite values are carried by reals: the special
  values follow the IEEE rules the code tests for (\<^verbatim>\<open>is_nan\<close>, \<^verbatim>\<open>is_inf\<close>, comparisons
  that are false on NaN), while rounding, overflow of finite results and the sign of zero
  are not represented.
\<close>

datatype f32 = Fin real | PInf | NInf | NaN

definition inf_of :: "bool \<Rightarrow> f32" where
  "inf_of positive = (if positive then PInf else NInf)"

fun fneg :: "f32 \<Rightarrow> f32" where
  "fneg (Fin a) = Fin (- a)"
| "fneg PInf = NInf"
| "fneg NInf = PInf"
| "fneg NaN = NaN"

fun fadd :: "f32 \<Rightarrow> f32 \<Rightarrow> f32" where
  "fadd (Fin a) (Fin b) = Fin (a + b)"
| "fadd (Fin a) PInf = PInf"
| "fadd (Fin a) NInf = NInf"
| "fadd PInf (Fin b) = PInf"
| "fadd PInf PInf = PInf"
| "fadd NInf (Fin b) = NInf"
| "fadd NInf NInf = NInf"
| "fadd PInf NInf = NaN"
| "fadd NInf PInf = NaN"
| "fadd NaN b = NaN"
| "fadd a NaN = NaN"

definition fsub :: "f32 \<Rightarrow> f32 \<Rightarrow> f32" where
  "fsub a b = fadd a (fneg b)"

fun fmul :: "f32 \<Rightarrow> f32 \<Rightarrow> f32" where
  "fmul (Fin a) (Fin b) = Fin (a * b)"
| "fmul (Fin a) PInf = (if a = 0 then NaN else inf_of (0 < a))"
| "fmul (Fin a) NInf = (if a = 0 then NaN else inf_of (a < 0))"
| "fmul PInf (Fin b) = (if b = 0 then NaN else inf_of (0 < b))"
| "fmul NInf (Fin b) = (if b = 0 then NaN else inf_of (b < 0))"
| "fmul PInf PInf = PInf"
| "fmul NInf NInf = PInf"
| "fmul PInf NInf = NInf"
| "fmul NInf PInf = NInf"
| "fmul NaN b = NaN"
| "fmul a NaN = NaN"

fun fdiv :: "f32 \<Rightarrow> f32 \<Rightarrow> f32" where
  "fdiv (Fin a) (Fin b) =
     (if b = 0 then (if a = 0 then NaN else inf_of (0 < a)) else Fin (a / b))"
| "fdiv (Fin a) PInf = Fin 0"
| "fdiv (Fin a) NInf = Fin 0"
| "fdiv PInf (Fin b) = inf_of (0 \<le> b)"
| "fdiv NInf (Fin b) = inf_of (b < 0)"
| "fdiv PInf PInf = NaN"
| "fdiv PInf NInf = NaN"
| "fdiv NInf PInf = NaN"
| "fdiv NInf NInf = NaN"
| "fdiv NaN b = NaN"
| "fdiv a NaN = NaN"

fun flt :: "f32 \<Rightarrow> f32 \<Rightarrow> bool" where
  "flt (Fin a) (Fin b) = (a < b)"
| "flt (Fin a) PInf = True"
| "flt NInf (Fin b) = True"
| "flt NInf PInf = True"
| "flt a b = False"

definition fgt :: "f32 \<Rightarrow> f32 \<Rightarrow> bool" where
  "fgt a b = flt b a"

fun isnan :: "f32 \<Rightarrow> bool" where
  "isnan NaN = True"
| "isnan a = False"

fun isinf :: "f32 \<Rightarrow> bool" where
  "isinf PInf = True"
| "isinf NInf = True"
| "isinf a = False"

text \<open>Conversion of an unsigned integer to \<^verbatim>\<open>float\<close>.\<close>

definition f32_of_nat :: "nat \<Rightarrow> f32" where
  "f32_of_nat n = Fin (real n)"

text \<open>\<^verbatim>\<open>Vector3f\<close> with the operators the core uses.\<close>

datatype vec3 = Vector3f (vx: f32) (vy: f32) (vz: f32)

definition vzero :: vec3 where
  "vzero = Vector3f (Fin 0) (Fin 0) (Fin 0)"

definition vadd :: "vec3 \<Rightarrow> vec3 \<Rightarrow> vec3" where
  "vadd a b = Vector3f (fadd (vx a) (vx b)) (fadd (vy a) (vy b)) (fadd (vz a) (vz b))"

definition vsub :: "vec3 \<Rightarrow> vec3 \<Rightarrow> vec3" where
  "vsub a b = Vector3f (fsub (vx a) (vx b)) (fsub (vy a) (vy b)) (fsub (vz a) (vz b))"

definition vscale :: "vec3 \<Rightarrow> f32 \<Rightarrow> vec3" where
  "vscale a k = Vector3f (fmul (vx a) k) (fmul (vy a) k) (fmul (vz a) k)"

definition vdiv :: "vec3 \<Rightarrow> f32 \<Rightarrow> vec3" where
  "vdiv a k = Vector3f (fdiv (vx a) k) (fdiv (vy a) k) (fdiv (vz a) k)"

text \<open>\<^verbatim>\<open>operator %\<close>, the cross product.\<close>

definition vcross :: "vec3 \<Rightarrow> vec3 \<Rightarrow> vec3" where
  "vcross a b = Vector3f
     (fsub (fmul (vy a) (vz b)) (fmul (vz a) (vy b)))
     (fsub (fmul (vz a) (vx b)) (fmul (vx a) (vz b)))
     (fsub (fmul (vx a) (vy b)) (fmul (vy a) (vx b)))"

definition is_nan :: "vec3 \<Rightarrow> bool" where
  "is_nan a = (isnan (vx a) \<or> isnan (vy a) \<or> isnan (vz a))"

definition is_inf :: "vec3 \<Rightarrow> bool" where
  "is_inf a = (isinf (vx a) \<or> isinf (vy a) \<or> isinf (vz a))"

text \<open>
  Modelled from the spec: \<^verbatim>\<open>constrain_float\<close> (AP_Math, not part of the file) is the
  clamp of the observed rate to the interval between the two bounds.
\<close>

definition constrain_float :: "f32 \<Rightarrow> f32 \<Rightarrow> f32 \<Rightarrow> f32" where
  "constrain_float amt low high =
     (if flt amt low then low else if fgt amt high then high else amt)"

section \<open>Data model\<close>

type_synonym uint8_t = "8 word"
type_synonym uint16_t = "16 word"
type_synonym uint32_t = "32 word"
type_synonym uint64_t = "64 word"
type_synonym Rotation = "8 word"

text \<open>Calls into collaborators that return nothing are recorded in a trace.\<close>

datatype event =
    Set_primary bool
  | Hook_gyro_sample uint8_t f32 vec3
  | Hook_accel_sample uint8_t f32 vec3 bool
  | Opticalflow_push_gyro f32 f32 f32
  | Calc_vibration_and_clipping uint8_t vec3 f32
  | Set_accel_peak_hold uint8_t vec3
  | Log_gyro_raw uint8_t uint64_t vec3 vec3
  | Log_accel_raw uint8_t uint64_t vec3
  | Accel_cal_new_sample uint8_t vec3 f32
  | Tcal_update_accel_learning uint8_t vec3 f32
  | Tcal_update_gyro_learning uint8_t vec3 f32
  | Push_next_gyro_sample vec3
  | Set_imu_temp f32

text \<open>One harmonic notch: its parameters and its per-instance filter state.\<close>

record 'n notch =
  params_enabled :: bool
  is_inactive :: bool
  EnableOnAllIMUs :: bool
  filter :: "uint8_t \<Rightarrow> 'n"

text \<open>
  What a call reads from outside the state below: the clock, the arming state, and the
  front-end members and parameters that this file never writes.
\<close>

record env =
  hal_micros :: uint32_t
  hal_micros64_stamp :: uint64_t
  hal_micros64_now :: uint64_t
  hal_micros_primary :: uint32_t
  hal_millis64 :: uint64_t
  hal_soft_armed :: bool
  hal_opticalflow :: bool
  HAL_INS_CONVERGANCE_MS :: uint64_t
  imu_primary :: uint8_t
  imu_accel_orientation :: "uint8_t \<Rightarrow> Rotation"
  imu_gyro_orientation :: "uint8_t \<Rightarrow> Rotation"
  imu_board_orientation :: Rotation
  imu_tcal_learning :: bool
  imu_calibrating_accel :: bool
  imu_calibrating_gyro :: bool
  imu_acal_running :: bool
  imu_caltemp_accel :: "uint8_t \<Rightarrow> f32"
  imu_caltemp_gyro :: "uint8_t \<Rightarrow> f32"
  imu_accel_offset :: "uint8_t \<Rightarrow> vec3"
  imu_accel_scale :: "uint8_t \<Rightarrow> vec3"
  imu_gyro_offset :: "uint8_t \<Rightarrow> vec3"
  imu_accel_cal_collecting :: "uint8_t \<Rightarrow> bool"
  imu_fft_window_phase :: uint8_t
  imu_gyro_window_size :: uint16_t
  imu_post_filter_fft :: bool
  imu_gyro_raw_sampling_multiplier :: "uint8_t \<Rightarrow> f32"
  imu_is_rate_loop_gyro_enabled :: "uint8_t \<Rightarrow> bool"
  imu_push_next_gyro_sample :: bool
  batchsampler_doing_post_filter_logging :: bool
  board_config_present :: bool
  gyro_filter_cutoff :: uint16_t
  accel_filter_cutoff :: uint16_t

text \<open>
  The filter, rotation and calibration classes are other libraries; their operations are
  parameters of the model. \<open>'f\<close> is the state of a low-pass filter, \<open>'n\<close> that of a
  harmonic notch filter.
\<close>

record ('f, 'n) deps =
  lpf_apply :: "'f \<Rightarrow> vec3 \<Rightarrow> 'f \<times> vec3"
  lpf_reset :: "'f \<Rightarrow> 'f"
  lpf_set_cutoff_frequency :: "'f \<Rightarrow> f32 \<Rightarrow> f32 \<Rightarrow> 'f"
  notch_apply :: "'n \<Rightarrow> vec3 \<Rightarrow> 'n \<times> vec3"
  notch_reset :: "'n \<Rightarrow> 'n"
  notch_update_params :: "'n notch \<Rightarrow> uint8_t \<Rightarrow> bool \<Rightarrow> f32 \<Rightarrow> 'n notch"
  rotate :: "Rotation \<Rightarrow> vec3 \<Rightarrow> vec3"
  rotate_inverse :: "Rotation \<Rightarrow> vec3 \<Rightarrow> vec3"
  tcal_correct_accel :: "uint8_t \<Rightarrow> f32 \<Rightarrow> f32 \<Rightarrow> vec3 \<Rightarrow> vec3"
  tcal_correct_gyro :: "uint8_t \<Rightarrow> f32 \<Rightarrow> f32 \<Rightarrow> vec3 \<Rightarrow> vec3"
  window_push :: "f32 list \<Rightarrow> f32 \<Rightarrow> f32 list"

text \<open>
  The state the file writes: the front end's per-instance arrays (\<^verbatim>\<open>_imu._x[instance]\<close>
  is \<open>imu_x s instance\<close>), the backend's own members, and the trace.
\<close>

record ('f, 'n) state =
  imu_sample_gyro_count :: "uint8_t \<Rightarrow> uint16_t"
  imu_sample_gyro_start_us :: "uint8_t \<Rightarrow> uint32_t"
  imu_gyro_raw_sample_rates :: "uint8_t \<Rightarrow> f32"
  imu_gyro_last_sample_us :: "uint8_t \<Rightarrow> uint64_t"
  imu_last_raw_gyro :: "uint8_t \<Rightarrow> vec3"
  imu_last_delta_angle :: "uint8_t \<Rightarrow> vec3"
  imu_delta_angle_acc :: "uint8_t \<Rightarrow> vec3"
  imu_delta_angle_acc_dt :: "uint8_t \<Rightarrow> f32"
  imu_delta_angle :: "uint8_t \<Rightarrow> vec3"
  imu_delta_angle_dt :: "uint8_t \<Rightarrow> f32"
  imu_delta_angle_valid :: "uint8_t \<Rightarrow> bool"
  imu_gyro :: "uint8_t \<Rightarrow> vec3"
  imu_gyro_healthy :: "uint8_t \<Rightarrow> bool"
  imu_gyro_filtered :: "uint8_t \<Rightarrow> vec3"
  imu_new_gyro_data :: "uint8_t \<Rightarrow> bool"
  imu_gyro_filter :: "uint8_t \<Rightarrow> 'f"
  imu_post_filter_gyro_filter :: "uint8_t \<Rightarrow> 'f"
  imu_harmonic_notches :: "'n notch list"
  imu_gyro_window :: "uint8_t \<Rightarrow> nat \<Rightarrow> f32 list"
  imu_last_gyro_for_fft :: "uint8_t \<Rightarrow> vec3"
  imu_gyro_for_fft :: "uint8_t \<Rightarrow> vec3"
  imu_gyro_error_count :: "uint8_t \<Rightarrow> uint32_t"
  imu_gyro_over_sampling :: "uint8_t \<Rightarrow> uint8_t"
  imu_sample_accel_count :: "uint8_t \<Rightarrow> uint16_t"
  imu_sample_accel_start_us :: "uint8_t \<Rightarrow> uint32_t"
  imu_accel_raw_sample_rates :: "uint8_t \<Rightarrow> f32"
  imu_accel_last_sample_us :: "uint8_t \<Rightarrow> uint64_t"
  imu_delta_velocity_acc :: "uint8_t \<Rightarrow> vec3"
  imu_delta_velocity_acc_dt :: "uint8_t \<Rightarrow> f32"
  imu_delta_velocity :: "uint8_t \<Rightarrow> vec3"
  imu_delta_velocity_dt :: "uint8_t \<Rightarrow> f32"
  imu_delta_velocity_valid :: "uint8_t \<Rightarrow> bool"
  imu_accel :: "uint8_t \<Rightarrow> vec3"
  imu_accel_healthy :: "uint8_t \<Rightarrow> bool"
  imu_accel_filtered :: "uint8_t \<Rightarrow> vec3"
  imu_new_accel_data :: "uint8_t \<Rightarrow> bool"
  imu_accel_filter :: "uint8_t \<Rightarrow> 'f"
  imu_accel_error_count :: "uint8_t \<Rightarrow> uint32_t"
  imu_accel_over_sampling :: "uint8_t \<Rightarrow> uint8_t"
  imu_temperature :: "uint8_t \<Rightarrow> f32"
  imu_killed :: "uint8_t \<Rightarrow> bool"
  is_primary :: bool
  last_primary_update_us :: uint32_t
  gyro_instance :: uint8_t
  last_gyro_filter_hz :: uint16_t
  last_accel_filter_hz :: uint16_t
  events :: "event list"

definition emit :: "event \<Rightarrow> ('f, 'n) state \<Rightarrow> ('f, 'n) state" where
  "emit ev s = s\<lparr>events := events s @ [ev]\<rparr>"

text \<open>
  Modelled from the spec: \<^verbatim>\<open>has_been_killed\<close> is declared in the backend's header, which
  is not part of the file; it reads the per-instance killed flag.
\<close>

definition has_been_killed :: "('f, 'n) state \<Rightarrow> uint8_t \<Rightarrow> bool" where
  "has_been_killed s instance = imu_killed s instance"

section \<open>Rate estimator\<close>

definition notify_accel_fifo_reset :: "uint8_t \<Rightarrow> ('f, 'n) state \<Rightarrow> ('f, 'n) state" where
  "notify_accel_fifo_reset instance s =
     s\<lparr>imu_sample_accel_count := (imu_sample_accel_count s)(instance := 0),
       imu_sample_accel_start_us := (imu_sample_accel_start_us s)(instance := 0)\<rparr>"

definition notify_gyro_fifo_reset :: "uint8_t \<Rightarrow> ('f, 'n) state \<Rightarrow> ('f, 'n) state" where
  "notify_gyro_fifo_reset instance s =
     s\<lparr>imu_sample_gyro_count := (imu_sample_gyro_count s)(instance := 0),
       imu_sample_gyro_start_us := (imu_sample_gyro_start_us s)(instance := 0)\<rparr>"

definition set_accel_oversampling :: "uint8_t \<Rightarrow> uint8_t \<Rightarrow> ('f, 'n) state \<Rightarrow> ('f, 'n) state" where
  "set_accel_oversampling instance n s =
     s\<lparr>imu_accel_over_sampling := (imu_accel_over_sampling s)(instance := n)\<rparr>"

definition set_gyro_oversampling :: "uint8_t \<Rightarrow> uint8_t \<Rightarrow> ('f, 'n) state \<Rightarrow> ('f, 'n) state" where
  "set_gyro_oversampling instance n s =
     s\<lparr>imu_gyro_over_sampling := (imu_gyro_over_sampling s)(instance := n)\<rparr>"

definition sensors_converging :: "env \<Rightarrow> bool" where
  "sensors_converging e = (hal_millis64 e < HAL_INS_CONVERGANCE_MS e \<and> \<not> hal_soft_armed e)"

text \<open>
  \<^verbatim>\<open>_update_sensor_rate\<close> works on three references; the model takes and returns the
  triple \<open>(count, start_us, rate_hz)\<close>. The counter is 16 bits wide and the clock 32 bits
  wide, both wrapping.
\<close>

definition update_sensor_rate :: "env \<Rightarrow> uint16_t \<times> uint32_t \<times> f32 \<Rightarrow> uint16_t \<times> uint32_t \<times> f32" where
  "update_sensor_rate e = (\<lambda>(count, start_us, rate_hz).
     let now = hal_micros e in
     if start_us = 0 then (0, now, rate_hz)
     else
       let count = count + 1 in
       if now - start_us > 1000000 then
         let observed_rate_hz =
               fdiv (fmul (f32_of_nat (unat count)) (Fin 1000000)) (f32_of_nat (unat (now - start_us)));
             filter_constant = (if sensors_converging e then Fin (8 / 10) else Fin (98 / 100));
             upper_limit = (if sensors_converging e then Fin 2 else Fin (105 / 100));
             lower_limit = (if sensors_converging e then Fin (5 / 10) else Fin (95 / 100));
             observed_rate_hz =
               constrain_float observed_rate_hz (fmul rate_hz lower_limit) (fmul rate_hz upper_limit);
             rate_hz = fadd (fmul filter_constant rate_hz)
                            (fmul (fsub (Fin 1) filter_constant) observed_rate_hz)
         in (0, now, rate_hz)
       else (count, start_us, rate_hz))"

text \<open>The two call sites: the references are the gyro, or the accel, timing fields.\<close>

definition update_gyro_sensor_rate :: "env \<Rightarrow> uint8_t \<Rightarrow> ('f, 'n) state \<Rightarrow> ('f, 'n) state" where
  "update_gyro_sensor_rate e instance s =
     (case update_sensor_rate e (imu_sample_gyro_count s instance,
                                imu_sample_gyro_start_us s instance,
                                imu_gyro_raw_sample_rates s instance) of
        (count, start_us, rate_hz) \<Rightarrow>
          s\<lparr>imu_sample_gyro_count := (imu_sample_gyro_count s)(instance := count),
            imu_sample_gyro_start_us := (imu_sample_gyro_start_us s)(instance := start_us),
            imu_gyro_raw_sample_rates := (imu_gyro_raw_sample_rates s)(instance := rate_hz)\<rparr>)"

definition update_accel_sensor_rate :: "env \<Rightarrow> uint8_t \<Rightarrow> ('f, 'n) state \<Rightarrow> ('f, 'n) state" where
  "update_accel_sensor_rate e instance s =
     (case update_sensor_rate e (imu_sample_accel_count s instance,
                                imu_sample_accel_start_us s instance,
                                imu_accel_raw_sample_rates s instance) of
        (count, start_us, rate_hz) \<Rightarrow>
          s\<lparr>imu_sample_accel_count := (imu_sample_accel_count s)(instance := count),
            imu_sample_accel_start_us := (imu_sample_accel_start_us s)(instance := start_us),
            imu_accel_raw_sample_rates := (imu_accel_raw_sample_rates s)(instance := rate_hz)\<rparr>)"

section \<open>Correction stage\<close>

definition rotate_and_correct_accel ::
  "('f, 'n) deps \<Rightarrow> env \<Rightarrow> uint8_t \<Rightarrow> vec3 \<Rightarrow> ('f, 'n) state \<Rightarrow> vec3 \<times> ('f, 'n) state" where
  "rotate_and_correct_accel D e instance accel s =
     (let accel = rotate D (imu_accel_orientation e instance) accel;
          s = (if imu_tcal_learning e
               then emit (Tcal_update_accel_learning instance accel (imu_temperature s instance)) s
               else s);
          accel =
            (if \<not> imu_calibrating_accel e \<and> \<not> imu_acal_running e then
               let accel = tcal_correct_accel D instance (imu_temperature s instance)
                             (imu_caltemp_accel e instance) accel;
                   accel = vsub accel (imu_accel_offset e instance);
                   accel_scale = imu_accel_scale e instance
               in Vector3f (fmul (vx accel) (vx accel_scale))
                           (fmul (vy accel) (vy accel_scale))
                           (fmul (vz accel) (vz accel_scale))
             else accel)
      in (rotate D (imu_board_orientation e) accel, s))"

definition rotate_and_correct_gyro ::
  "('f, 'n) deps \<Rightarrow> env \<Rightarrow> uint8_t \<Rightarrow> vec3 \<Rightarrow> ('f, 'n) state \<Rightarrow> vec3 \<times> ('f, 'n) state" where
  "rotate_and_correct_gyro D e instance gyro s =
     (let gyro = rotate D (imu_gyro_orientation e instance) gyro;
          s = (if imu_tcal_learning e
               then emit (Tcal_update_gyro_learning instance gyro (imu_temperature s instance)) s
               else s);
          gyro =
            (if \<not> imu_calibrating_gyro e then
               let gyro = tcal_correct_gyro D instance (imu_temperature s instance)
                            (imu_caltemp_gyro e instance) gyro
               in vsub gyro (imu_gyro_offset e instance)
             else gyro)
      in (rotate D (imu_board_orientation e) gyro, s))"

section \<open>Publish gate\<close>

definition publish_gyro :: "uint8_t \<Rightarrow> vec3 \<Rightarrow> ('f, 'n) state \<Rightarrow> ('f, 'n) state" where
  "publish_gyro instance gyro s =
     (if has_been_killed s instance then s
      else s\<lparr>imu_gyro := (imu_gyro s)(instance := gyro),
             imu_gyro_healthy := (imu_gyro_healthy s)(instance := True),
             imu_delta_angle := (imu_delta_angle s)(instance := imu_delta_angle_acc s instance),
             imu_delta_angle_dt := (imu_delta_angle_dt s)(instance := imu_delta_angle_acc_dt s instance),
             imu_delta_angle_valid := (imu_delta_angle_valid s)(instance := True),
             imu_delta_angle_acc := (imu_delta_angle_acc s)(instance := vzero),
             imu_delta_angle_acc_dt := (imu_delta_angle_acc_dt s)(instance := Fin 0)\<rparr>)"

definition publish_accel ::
  "('f, 'n) deps \<Rightarrow> env \<Rightarrow> uint8_t \<Rightarrow> vec3 \<Rightarrow> ('f, 'n) state \<Rightarrow> ('f, 'n) state" where
  "publish_accel D e instance accel s =
     (if has_been_killed s instance then s
      else
        let s = s\<lparr>imu_accel := (imu_accel s)(instance := accel),
                   imu_accel_healthy := (imu_accel_healthy s)(instance := True),
                   imu_delta_velocity := (imu_delta_velocity s)(instance := imu_delta_velocity_acc s instance),
                   imu_delta_velocity_dt :=
                     (imu_delta_velocity_dt s)(instance := imu_delta_velocity_acc_dt s instance),
                   imu_delta_velocity_valid := (imu_delta_velocity_valid s)(instance := True),
                   imu_delta_velocity_acc := (imu_delta_velocity_acc s)(instance := vzero),
                   imu_delta_velocity_acc_dt := (imu_delta_velocity_acc_dt s)(instance := Fin 0)\<rparr>
        in if imu_accel_cal_collecting e instance then
             let cal_sample = rotate_inverse D (imu_board_orientation e) (imu_delta_velocity s instance)
             in emit (Accel_cal_new_sample instance cal_sample (imu_delta_velocity_dt s instance)) s
           else s)"

definition publish_temperature :: "env \<Rightarrow> uint8_t \<Rightarrow> f32 \<Rightarrow> ('f, 'n) state \<Rightarrow> ('f, 'n) state" where
  "publish_temperature e instance temperature s =
     (if has_been_killed s instance then s
      else
        let s = s\<lparr>imu_temperature := (imu_temperature s)(instance := temperature)\<rparr>
        in if instance = 0 \<and> board_config_present e then emit (Set_imu_temp temperature) s else s)"

section \<open>Filter chain\<close>

definition save_gyro_window ::
  "('f, 'n) deps \<Rightarrow> env \<Rightarrow> uint8_t \<Rightarrow> vec3 \<Rightarrow> uint8_t \<Rightarrow> ('f, 'n) state \<Rightarrow> ('f, 'n) state" where
  "save_gyro_window D e instance gyro phase s =
     (if imu_fft_window_phase e = phase then
        if imu_gyro_window_size e > 0 then
          let scaled_gyro = vscale gyro (imu_gyro_raw_sampling_multiplier e instance);
              r = (if imu_post_filter_fft e
                   then lpf_apply D (imu_post_filter_gyro_filter s instance) scaled_gyro
                   else (imu_post_filter_gyro_filter s instance, scaled_gyro));
              scaled_gyro = snd r;
              w = imu_gyro_window s instance
          in s\<lparr>imu_post_filter_gyro_filter := (imu_post_filter_gyro_filter s)(instance := fst r),
                imu_gyro_window := (imu_gyro_window s)(instance :=
                   w(0 := window_push D (w 0) (vx scaled_gyro),
                     1 := window_push D (w 1) (vy scaled_gyro),
                     2 := window_push D (w 2) (vz scaled_gyro))),
                imu_last_gyro_for_fft := (imu_last_gyro_for_fft s)(instance := scaled_gyro)\<rparr>
        else s\<lparr>imu_last_gyro_for_fft := (imu_last_gyro_for_fft s)(instance :=
                   vscale gyro (imu_gyro_raw_sampling_multiplier e instance))\<rparr>
      else s)"

text \<open>
  The loop over the harmonic notches. It returns the notches with their updated filters,
  the filtered value, the next filter phase and the state, in which \<^verbatim>\<open>save_gyro_window\<close>
  has recorded the windows.
\<close>

fun apply_notches ::
  "('f, 'n) deps \<Rightarrow> env \<Rightarrow> uint8_t \<Rightarrow> 'n notch list \<Rightarrow> vec3 \<Rightarrow> uint8_t \<Rightarrow> ('f, 'n) state
     \<Rightarrow> 'n notch list \<times> vec3 \<times> uint8_t \<times> ('f, 'n) state" where
  "apply_notches D e instance [] gyro_filtered filter_phase s = ([], gyro_filtered, filter_phase, s)"
| "apply_notches D e instance (notch # rest) gyro_filtered filter_phase s =
     (if \<not> params_enabled notch then
        (case apply_notches D e instance rest gyro_filtered filter_phase s of
           (rest', out) \<Rightarrow> (notch # rest', out))
      else
        let inactive = (is_inactive notch \<or> (\<not> EnableOnAllIMUs notch \<and> instance \<noteq> imu_primary e));
            r = (if inactive then (notch_reset D (filter notch instance), gyro_filtered)
                 else notch_apply D (filter notch instance) gyro_filtered);
            notch = notch\<lparr>filter := (filter notch)(instance := fst r)\<rparr>;
            gyro_filtered = snd r;
            s = save_gyro_window D e instance gyro_filtered filter_phase s
        in (case apply_notches D e instance rest gyro_filtered (filter_phase + 1) s of
              (rest', out) \<Rightarrow> (notch # rest', out)))"

definition apply_gyro_filters ::
  "('f, 'n) deps \<Rightarrow> env \<Rightarrow> uint8_t \<Rightarrow> vec3 \<Rightarrow> ('f, 'n) state \<Rightarrow> ('f, 'n) state" where
  "apply_gyro_filters D e instance gyro s =
     (let s = save_gyro_window D e instance gyro 0 s in
      case apply_notches D e instance (imu_harmonic_notches s) gyro 1 s of
        (notches, gyro_filtered, filter_phase, s) \<Rightarrow>
          let s = s\<lparr>imu_harmonic_notches := notches\<rparr>;
              r = lpf_apply D (imu_gyro_filter s instance) gyro_filtered;
              s = s\<lparr>imu_gyro_filter := (imu_gyro_filter s)(instance := fst r)\<rparr>;
              gyro_filtered = snd r;
              failed = (is_nan gyro_filtered \<or> is_inf gyro_filtered);
              s = (if failed then
                     s\<lparr>imu_gyro_filter := (imu_gyro_filter s)(instance :=
                          lpf_reset D (imu_gyro_filter s instance)),
                       imu_post_filter_gyro_filter := (imu_post_filter_gyro_filter s)(instance :=
                          lpf_reset D (imu_post_filter_gyro_filter s instance)),
                       imu_harmonic_notches :=
                          map (\<lambda>notch. notch\<lparr>filter := (filter notch)(instance :=
                                 notch_reset D (filter notch instance))\<rparr>) (imu_harmonic_notches s)\<rparr>
                   else s);
              gyro_filtered = (if failed then imu_gyro_filtered s instance else gyro_filtered)
          in if imu_is_rate_loop_gyro_enabled e instance then
               let s = emit (Push_next_gyro_sample gyro_filtered) s
               in if imu_push_next_gyro_sample e
                  then s\<lparr>imu_gyro_filtered := (imu_gyro_filtered s)(instance := gyro_filtered)\<rparr>
                  else s
             else s\<lparr>imu_gyro_filtered := (imu_gyro_filtered s)(instance := gyro_filtered)\<rparr>)"

section \<open>Primary selector\<close>

text \<open>
  Modelled from the spec: \<^verbatim>\<open>AP_HAL::timeout_expired\<close> is not part of the file; it holds
  when more than the timeout has elapsed since the past time, on the wrapping 32-bit clock.
\<close>

definition timeout_expired :: "uint32_t \<Rightarrow> uint32_t \<Rightarrow> uint32_t \<Rightarrow> bool" where
  "timeout_expired past_time now timeout = (now - past_time > timeout)"

definition PRIMARY_UPDATE_TIMEOUT_US :: uint32_t where
  "PRIMARY_UPDATE_TIMEOUT_US = 200000"

definition update_primary :: "env \<Rightarrow> ('f, 'n) state \<Rightarrow> ('f, 'n) state" where
  "update_primary e s =
     (let is_new_primary = (gyro_instance s = imu_primary e);
          now_us = hal_micros_primary e
      in if is_primary s \<noteq> is_new_primary
            \<or> timeout_expired (last_primary_update_us s) now_us PRIMARY_UPDATE_TIMEOUT_US
         then (emit (Set_primary is_new_primary) s)
                \<lparr>is_primary := is_new_primary, last_primary_update_us := now_us\<rparr>
         else s)"

section \<open>Delta integrator and sample notifications\<close>

text \<open>
  The block that both gyro notifications run while holding the semaphore: the staleness
  reset, the accumulation, the caches for the next cycle, and the filters.
\<close>

definition integrate_delta_angle ::
  "('f, 'n) deps \<Rightarrow> env \<Rightarrow> uint8_t \<Rightarrow> vec3 \<Rightarrow> f32 \<Rightarrow> vec3 \<Rightarrow> vec3 \<Rightarrow> uint64_t
     \<Rightarrow> ('f, 'n) state \<Rightarrow> ('f, 'n) state" where
  "integrate_delta_angle D e instance gyro dt delta_angle delta_coning last_sample_us s =
     (let now = hal_micros64_now e;
          stale = (now - last_sample_us > 100000);
          s = (if stale
               then s\<lparr>imu_delta_angle_acc := (imu_delta_angle_acc s)(instance := vzero),
                      imu_delta_angle_acc_dt := (imu_delta_angle_acc_dt s)(instance := Fin 0)\<rparr>
               else s);
          dt = (if stale then Fin 0 else dt);
          delta_angle = (if stale then vzero else delta_angle);
          s = s\<lparr>imu_delta_angle_acc := (imu_delta_angle_acc s)(instance :=
                    vadd (imu_delta_angle_acc s instance) (vadd delta_angle delta_coning)),
                 imu_delta_angle_acc_dt := (imu_delta_angle_acc_dt s)(instance :=
                    fadd (imu_delta_angle_acc_dt s instance) dt),
                 imu_last_delta_angle := (imu_last_delta_angle s)(instance := delta_angle),
                 imu_last_raw_gyro := (imu_last_raw_gyro s)(instance := gyro)\<rparr>;
          s = apply_gyro_filters D e instance gyro s
      in s\<lparr>imu_new_gyro_data := (imu_new_gyro_data s)(instance := True)\<rparr>)"

text \<open>The coning correction, computed before the semaphore is taken.\<close>

definition coning_correction :: "('f, 'n) state \<Rightarrow> uint8_t \<Rightarrow> vec3 \<Rightarrow> vec3" where
  "coning_correction s instance delta_angle =
     (let delta_coning = vadd (imu_delta_angle_acc s instance)
                              (vscale (imu_last_delta_angle s instance) (fdiv (Fin 1) (Fin 6)));
          delta_coning = vcross delta_coning delta_angle
      in vscale delta_coning (Fin (1 / 2)))"

text \<open>The hook and optical-flow taps of the gyro notifications.\<close>

definition gyro_sample_taps :: "env \<Rightarrow> uint8_t \<Rightarrow> f32 \<Rightarrow> vec3 \<Rightarrow> ('f, 'n) state \<Rightarrow> ('f, 'n) state" where
  "gyro_sample_taps e instance dt gyro s =
     (let s = emit (Hook_gyro_sample instance dt gyro) s
      in if hal_opticalflow e then emit (Opticalflow_push_gyro (vx gyro) (vy gyro) dt) s else s)"

definition notify_new_gyro_raw_sample ::
  "('f, 'n) deps \<Rightarrow> env \<Rightarrow> uint8_t \<Rightarrow> vec3 \<Rightarrow> uint64_t \<Rightarrow> ('f, 'n) state \<Rightarrow> ('f, 'n) state" where
  "notify_new_gyro_raw_sample D e instance gyro sample_us s =
     (if has_been_killed s instance then s
      else
        let s = update_gyro_sensor_rate e instance s;
            last_sample_us = imu_gyro_last_sample_us s instance;
            timestamped = (sample_us \<noteq> 0 \<and> imu_gyro_last_sample_us s instance \<noteq> 0)
        in if \<not> timestamped \<and> flt (imu_gyro_raw_sample_rates s instance) (Fin 40) then s
           else
             let dt = (if timestamped
                       then fmul (f32_of_nat (unat (sample_us - imu_gyro_last_sample_us s instance)))
                                 (Fin (1 / 1000000))
                       else fdiv (Fin 1) (imu_gyro_raw_sample_rates s instance));
                 sample_us = (if timestamped then sample_us else hal_micros64_stamp e);
                 s = s\<lparr>imu_gyro_last_sample_us := (imu_gyro_last_sample_us s)(instance := sample_us)\<rparr>;
                 s = gyro_sample_taps e instance dt gyro s;
                 delta_angle = vscale (vscale (vadd gyro (imu_last_raw_gyro s instance)) (Fin (1 / 2))) dt;
                 delta_coning = coning_correction s instance delta_angle;
                 s = integrate_delta_angle D e instance gyro dt delta_angle delta_coning last_sample_us s;
                 s = emit (Log_gyro_raw instance sample_us gyro (imu_gyro_filtered s instance)) s
             in update_primary e s)"

definition notify_new_delta_angle ::
  "('f, 'n) deps \<Rightarrow> env \<Rightarrow> uint8_t \<Rightarrow> vec3 \<Rightarrow> ('f, 'n) state \<Rightarrow> ('f, 'n) state" where
  "notify_new_delta_angle D e instance dangle s =
     (if has_been_killed s instance then s
      else
        let s = update_gyro_sensor_rate e instance s;
            last_sample_us = imu_gyro_last_sample_us s instance
        in if flt (imu_gyro_raw_sample_rates s instance) (Fin 40) then s
           else
             let dt = fdiv (Fin 1) (imu_gyro_raw_sample_rates s instance);
                 sample_us = hal_micros64_stamp e;
                 s = s\<lparr>imu_gyro_last_sample_us := (imu_gyro_last_sample_us s)(instance := sample_us)\<rparr>;
                 r = rotate_and_correct_gyro D e instance (vdiv dangle dt) s;
                 gyro = fst r;
                 s = gyro_sample_taps e instance dt gyro (snd r);
                 delta_angle = vscale gyro dt;
                 delta_coning = coning_correction s instance delta_angle;
                 s = integrate_delta_angle D e instance gyro dt delta_angle delta_coning last_sample_us s;
                 s = emit (Log_gyro_raw instance sample_us gyro (imu_gyro_filtered s instance)) s
             in update_primary e s)"

text \<open>
  The block that both accel notifications run while holding the semaphore, followed by
  the raw-log tap, which logs the filtered value when post-filter logging is on.
\<close>

definition integrate_delta_velocity ::
  "('f, 'n) deps \<Rightarrow> env \<Rightarrow> uint8_t \<Rightarrow> vec3 \<Rightarrow> f32 \<Rightarrow> uint64_t \<Rightarrow> ('f, 'n) state \<Rightarrow> ('f, 'n) state" where
  "integrate_delta_velocity D e instance accel dt last_sample_us s =
     (let now = hal_micros64_now e;
          stale = (now - last_sample_us > 100000);
          s = (if stale
               then s\<lparr>imu_delta_velocity_acc := (imu_delta_velocity_acc s)(instance := vzero),
                      imu_delta_velocity_acc_dt := (imu_delta_velocity_acc_dt s)(instance := Fin 0)\<rparr>
               else s);
          dt = (if stale then Fin 0 else dt);
          s = s\<lparr>imu_delta_velocity_acc := (imu_delta_velocity_acc s)(instance :=
                    vadd (imu_delta_velocity_acc s instance) (vscale accel dt)),
                 imu_delta_velocity_acc_dt := (imu_delta_velocity_acc_dt s)(instance :=
                    fadd (imu_delta_velocity_acc_dt s instance) dt)\<rparr>;
          r = lpf_apply D (imu_accel_filter s instance) accel;
          s = s\<lparr>imu_accel_filter := (imu_accel_filter s)(instance := fst r),
                 imu_accel_filtered := (imu_accel_filtered s)(instance := snd r)\<rparr>;
          s = (if is_nan (imu_accel_filtered s instance) \<or> is_inf (imu_accel_filtered s instance)
               then s\<lparr>imu_accel_filter := (imu_accel_filter s)(instance :=
                         lpf_reset D (imu_accel_filter s instance))\<rparr>
               else s);
          s = emit (Set_accel_peak_hold instance (imu_accel_filtered s instance)) s
      in s\<lparr>imu_new_accel_data := (imu_new_accel_data s)(instance := True)\<rparr>)"

definition log_accel_tap :: "env \<Rightarrow> uint8_t \<Rightarrow> uint64_t \<Rightarrow> vec3 \<Rightarrow> ('f, 'n) state \<Rightarrow> ('f, 'n) state" where
  "log_accel_tap e instance sample_us accel s =
     (if \<not> batchsampler_doing_post_filter_logging e
      then emit (Log_accel_raw instance sample_us accel) s
      else emit (Log_accel_raw instance sample_us (imu_accel_filtered s instance)) s)"

definition notify_new_accel_raw_sample ::
  "('f, 'n) deps \<Rightarrow> env \<Rightarrow> uint8_t \<Rightarrow> vec3 \<Rightarrow> uint64_t \<Rightarrow> bool \<Rightarrow> ('f, 'n) state \<Rightarrow> ('f, 'n) state" where
  "notify_new_accel_raw_sample D e instance accel sample_us fsync_set s =
     (if has_been_killed s instance then s
      else
        let s = update_accel_sensor_rate e instance s;
            last_sample_us = imu_accel_last_sample_us s instance;
            timestamped = (sample_us \<noteq> 0 \<and> imu_accel_last_sample_us s instance \<noteq> 0)
        in if \<not> timestamped \<and> flt (imu_accel_raw_sample_rates s instance) (Fin 40) then s
           else
             let dt = (if timestamped
                       then fmul (f32_of_nat (unat (sample_us - imu_accel_last_sample_us s instance)))
                                 (Fin (1 / 1000000))
                       else fdiv (Fin 1) (imu_accel_raw_sample_rates s instance));
                 sample_us = (if timestamped then sample_us else hal_micros64_stamp e);
                 s = s\<lparr>imu_accel_last_sample_us := (imu_accel_last_sample_us s)(instance := sample_us)\<rparr>;
                 s = emit (Hook_accel_sample instance dt accel fsync_set) s;
                 s = emit (Calc_vibration_and_clipping instance accel dt) s;
                 s = integrate_delta_velocity D e instance accel dt last_sample_us s
             in log_accel_tap e instance sample_us accel s)"

definition notify_new_delta_velocity ::
  "('f, 'n) deps \<Rightarrow> env \<Rightarrow> uint8_t \<Rightarrow> vec3 \<Rightarrow> ('f, 'n) state \<Rightarrow> ('f, 'n) state" where
  "notify_new_delta_velocity D e instance dvel s =
     (if has_been_killed s instance then s
      else
        let s = update_accel_sensor_rate e instance s;
            last_sample_us = imu_accel_last_sample_us s instance
        in if flt (imu_accel_raw_sample_rates s instance) (Fin 40) then s
           else
             let dt = fdiv (Fin 1) (imu_accel_raw_sample_rates s instance);
                 sample_us = hal_micros64_stamp e;
                 s = s\<lparr>imu_accel_last_sample_us := (imu_accel_last_sample_us s)(instance := sample_us)\<rparr>;
                 r = rotate_and_correct_accel D e instance (vdiv dvel dt) s;
                 accel = fst r;
                 s = emit (Hook_accel_sample instance dt accel False) (snd r);
                 s = emit (Calc_vibration_and_clipping instance accel dt) s;
                 s = integrate_delta_velocity D e instance accel dt last_sample_us s
             in log_accel_tap e instance sample_us accel s)"

definition inc_accel_error_count :: "uint8_t \<Rightarrow> ('f, 'n) state \<Rightarrow> ('f, 'n) state" where
  "inc_accel_error_count instance s =
     s\<lparr>imu_accel_error_count := (imu_accel_error_count s)(instance := imu_accel_error_count s instance + 1)\<rparr>"

definition inc_gyro_error_count :: "uint8_t \<Rightarrow> ('f, 'n) state \<Rightarrow> ('f, 'n) state" where
  "inc_gyro_error_count instance s =
     s\<lparr>imu_gyro_error_count := (imu_gyro_error_count s)(instance := imu_gyro_error_count s instance + 1)\<rparr>"

section \<open>Front-end updates\<close>

definition update_gyro_filters ::
  "('f, 'n) deps \<Rightarrow> env \<Rightarrow> uint8_t \<Rightarrow> ('f, 'n) state \<Rightarrow> ('f, 'n) state" where
  "update_gyro_filters D e instance s =
     (let gyro_rate = imu_gyro_raw_sample_rates s instance;
          s = (if last_gyro_filter_hz s \<noteq> gyro_filter_cutoff e \<or> sensors_converging e then
                 s\<lparr>imu_gyro_filter := (imu_gyro_filter s)(instance :=
                      lpf_set_cutoff_frequency D (imu_gyro_filter s instance) gyro_rate
                        (f32_of_nat (unat (gyro_filter_cutoff e)))),
                   imu_post_filter_gyro_filter := (imu_post_filter_gyro_filter s)(instance :=
                      lpf_set_cutoff_frequency D (imu_post_filter_gyro_filter s instance) gyro_rate
                        (f32_of_nat (unat (gyro_filter_cutoff e)))),
                   last_gyro_filter_hz := gyro_filter_cutoff e\<rparr>
               else s)
      in s\<lparr>imu_harmonic_notches :=
             map (\<lambda>notch. if params_enabled notch
                           then notch_update_params D notch instance (sensors_converging e) gyro_rate
                           else notch) (imu_harmonic_notches s)\<rparr>)"

definition update_gyro :: "('f, 'n) deps \<Rightarrow> env \<Rightarrow> uint8_t \<Rightarrow> ('f, 'n) state \<Rightarrow> ('f, 'n) state" where
  "update_gyro D e instance s =
     (if has_been_killed s instance then s
      else
        let s = (if imu_new_gyro_data s instance then
                   let s = publish_gyro instance (imu_gyro_filtered s instance) s;
                       s = s\<lparr>imu_gyro_for_fft := (imu_gyro_for_fft s)(instance :=
                                imu_last_gyro_for_fft s instance)\<rparr>
                   in s\<lparr>imu_new_gyro_data := (imu_new_gyro_data s)(instance := False)\<rparr>
                 else s)
        in update_gyro_filters D e instance s)"

definition update_accel_filters ::
  "('f, 'n) deps \<Rightarrow> env \<Rightarrow> uint8_t \<Rightarrow> ('f, 'n) state \<Rightarrow> ('f, 'n) state" where
  "update_accel_filters D e instance s =
     (if last_accel_filter_hz s \<noteq> accel_filter_cutoff e then
        s\<lparr>imu_accel_filter := (imu_accel_filter s)(instance :=
             lpf_set_cutoff_frequency D (imu_accel_filter s instance)
               (imu_accel_raw_sample_rates s instance) (f32_of_nat (unat (accel_filter_cutoff e)))),
          last_accel_filter_hz := accel_filter_cutoff e\<rparr>
      else s)"

definition update_accel :: "('f, 'n) deps \<Rightarrow> env \<Rightarrow> uint8_t \<Rightarrow> ('f, 'n) state \<Rightarrow> ('f, 'n) state" where
  "update_accel D e instance s =
     (if has_been_killed s instance then s
      else
        let s = (if imu_new_accel_data s instance then
                   let s = publish_accel D e instance (imu_accel_filtered s instance) s
                   in s\<lparr>imu_new_accel_data := (imu_new_accel_data s)(instance := False)\<rparr>
                 else s)
        in update_accel_filters D e instance s)"

section \<open>Calls and runs\<close>

text \<open>
  The entry points of the backend, with their arguments and what they read. The two
  sensor-rate batch-sampler taps and the register-change log only pass their argument to
  the logger and touch no state; they are not among the calls.
\<close>

datatype call =
    Notify_accel_fifo_reset uint8_t
  | Notify_gyro_fifo_reset uint8_t
  | Set_accel_oversampling uint8_t uint8_t
  | Set_gyro_oversampling uint8_t uint8_t
  | Publish_gyro uint8_t vec3
  | Publish_accel env uint8_t vec3
  | Publish_temperature env uint8_t f32
  | Notify_new_gyro_raw_sample env uint8_t vec3 uint64_t
  | Notify_new_delta_angle env uint8_t vec3
  | Notify_new_accel_raw_sample env uint8_t vec3 uint64_t bool
  | Notify_new_delta_velocity env uint8_t vec3
  | Inc_accel_error_count uint8_t
  | Inc_gyro_error_count uint8_t
  | Update_gyro env uint8_t
  | Update_accel env uint8_t
  | Update_primary env

fun step :: "('f, 'n) deps \<Rightarrow> call \<Rightarrow> ('f, 'n) state \<Rightarrow> ('f, 'n) state" where
  "step D (Notify_accel_fifo_reset i) s = notify_accel_fifo_reset i s"
| "step D (Notify_gyro_fifo_reset i) s = notify_gyro_fifo_reset i s"
| "step D (Set_accel_oversampling i n) s = set_accel_oversampling i n s"
| "step D (Set_gyro_oversampling i n) s = set_gyro_oversampling i n s"
| "step D (Publish_gyro i gyro) s = publish_gyro i gyro s"
| "step D (Publish_accel e i accel) s = publish_accel D e i accel s"
| "step D (Publish_temperature e i temperature) s = publish_temperature e i temperature s"
| "step D (Notify_new_gyro_raw_sample e i gyro sample_us) s = notify_new_gyro_raw_sample D e i gyro sample_us s"
| "step D (Notify_new_delta_angle e i dangle) s = notify_new_delta_angle D e i dangle s"
| "step D (Notify_new_accel_raw_sample e i accel sample_us fsync_set) s =
     notify_new_accel_raw_sample D e i accel sample_us fsync_set s"
| "step D (Notify_new_delta_velocity e i dvel) s = notify_new_delta_velocity D e i dvel s"
| "step D (Inc_accel_error_count i) s = inc_accel_error_count i s"
| "step D (Inc_gyro_error_count i) s = inc_gyro_error_count i s"
| "step D (Update_gyro e i) s = update_gyro D e i s"
| "step D (Update_accel e i) s = update_accel D e i s"
| "step D (Update_primary e) s = update_primary e s"

fun run :: "('f, 'n) deps \<Rightarrow> call list \<Rightarrow> ('f, 'n) state \<Rightarrow> ('f, 'n) state" where
  "run D [] s = s"
| "run D (c # cs) s = run D cs (step D c s)"

section \<open>A concrete configuration\<close>

text \<open>
  Filters that pass their input through (a low-pass filter with cutoff zero does), no
  rotation and no temperature correction; a quiet environment; a state at rest with a
  1 kHz rate estimate for every instance.
\<close>

definition passthrough :: "(unit, unit) deps" where
  "passthrough =
     \<lparr>lpf_apply = (\<lambda>f v. (f, v)), lpf_reset = (\<lambda>f. f), lpf_set_cutoff_frequency = (\<lambda>f r c. f),
      notch_apply = (\<lambda>n v. (n, v)), notch_reset = (\<lambda>n. n), notch_update_params = (\<lambda>n i c r. n),
      rotate = (\<lambda>r v. v), rotate_inverse = (\<lambda>r v. v),
      tcal_correct_accel = (\<lambda>i t c v. v), tcal_correct_gyro = (\<lambda>i t c v. v),
      window_push = (\<lambda>w a. w @ [a])\<rparr>"

definition env0 :: env where
  "env0 =
     \<lparr>hal_micros = 5000000, hal_micros64_stamp = 5000000, hal_micros64_now = 5000000,
      hal_micros_primary = 5000000, hal_millis64 = 60000, hal_soft_armed = False,
      hal_opticalflow = False, HAL_INS_CONVERGANCE_MS = 30000, imu_primary = 0,
      imu_accel_orientation = (\<lambda>i. 0), imu_gyro_orientation = (\<lambda>i. 0), imu_board_orientation = 0,
      imu_tcal_learning = False, imu_calibrating_accel = False, imu_calibrating_gyro = False,
      imu_acal_running = False, imu_caltemp_accel = (\<lambda>i. Fin 0), imu_caltemp_gyro = (\<lambda>i. Fin 0),
      imu_accel_offset = (\<lambda>i. vzero), imu_accel_scale = (\<lambda>i. Vector3f (Fin 1) (Fin 1) (Fin 1)),
      imu_gyro_offset = (\<lambda>i. vzero), imu_accel_cal_collecting = (\<lambda>i. False),
      imu_fft_window_phase = 0, imu_gyro_window_size = 0, imu_post_filter_fft = False,
      imu_gyro_raw_sampling_multiplier = (\<lambda>i. Fin 1), imu_is_rate_loop_gyro_enabled = (\<lambda>i. False),
      imu_push_next_gyro_sample = False, batchsampler_doing_post_filter_logging = False,
      board_config_present = False, gyro_filter_cutoff = 0, accel_filter_cutoff = 0\<rparr>"

definition state0 :: "(unit, unit) state" where
  "state0 =
     \<lparr>imu_sample_gyro_count = (\<lambda>i. 0), imu_sample_gyro_start_us = (\<lambda>i. 0),
      imu_gyro_raw_sample_rates = (\<lambda>i. Fin 1000), imu_gyro_last_sample_us = (\<lambda>i. 0),
      imu_last_raw_gyro = (\<lambda>i. vzero), imu_last_delta_angle = (\<lambda>i. vzero),
      imu_delta_angle_acc = (\<lambda>i. vzero), imu_delta_angle_acc_dt = (\<lambda>i. Fin 0),
      imu_delta_angle = (\<lambda>i. vzero), imu_delta_angle_dt = (\<lambda>i. Fin 0),
      imu_delta_angle_valid = (\<lambda>i. False), imu_gyro = (\<lambda>i. vzero), imu_gyro_healthy = (\<lambda>i. False),
      imu_gyro_filtered = (\<lambda>i. vzero), imu_new_gyro_data = (\<lambda>i. False),
      imu_gyro_filter = (\<lambda>i. ()), imu_post_filter_gyro_filter = (\<lambda>i. ()),
      imu_harmonic_notches = [], imu_gyro_window = (\<lambda>i k. []),
      imu_last_gyro_for_fft = (\<lambda>i. vzero), imu_gyro_for_fft = (\<lambda>i. vzero),
      imu_gyro_error_count = (\<lambda>i. 0), imu_gyro_over_sampling = (\<lambda>i. 1),
      imu_sample_accel_count = (\<lambda>i. 0), imu_sample_accel_start_us = (\<lambda>i. 0),
      imu_accel_raw_sample_rates = (\<lambda>i. Fin 1000), imu_accel_last_sample_us = (\<lambda>i. 0),
      imu_delta_velocity_acc = (\<lambda>i. vzero), imu_delta_velocity_acc_dt = (\<lambda>i. Fin 0),
      imu_delta_velocity = (\<lambda>i. vzero), imu_delta_velocity_dt = (\<lambda>i. Fin 0),
      imu_delta_velocity_valid = (\<lambda>i. False), imu_accel = (\<lambda>i. vzero),
      imu_accel_healthy = (\<lambda>i. False), imu_accel_filtered = (\<lambda>i. vzero),
      imu_new_accel_data = (\<lambda>i. False), imu_accel_filter = (\<lambda>i. ()),
      imu_accel_error_count = (\<lambda>i. 0), imu_accel_over_sampling = (\<lambda>i. 1),
      imu_temperature = (\<lambda>i. Fin 25), imu_killed = (\<lambda>i. False),
      is_primary = True, last_primary_update_us = 5000000, gyro_instance = 0,
      last_gyro_filter_hz = 0, last_accel_filter_hz = 0, events = []\<rparr>"

text \<open>Variants of the state at rest: filled accumulators, and a 30 Hz rate estimate.\<close>

definition state1 :: "(unit, unit) state" where
  "state1 = state0\<lparr>imu_delta_angle_acc := (\<lambda>i. Vector3f (Fin 1) (Fin 2) (Fin 3)),
         imu_delta_angle_acc_dt := (\<lambda>i. Fin (1 / 100)),
         imu_delta_velocity_acc := (\<lambda>i. Vector3f (Fin 4) (Fin 5) (Fin 6)),
         imu_delta_velocity_acc_dt := (\<lambda>i. Fin (2 / 100))\<rparr>"

definition state_slow :: "(unit, unit) state" where
  "state_slow = state0\<lparr>imu_gyro_raw_sample_rates := (\<lambda>i. Fin 30),
         imu_accel_raw_sample_rates := (\<lambda>i. Fin 30)\<rparr>"

text \<open>
  A state with five 1 kHz samples accumulated whose last sample was taken at 4.8 s, that
  is 200 ms before the clock of \<open>env0\<close>; and a clock 1 ms after that sample.
\<close>

definition state_gap :: "(unit, unit) state" where
  "state_gap = state0\<lparr>imu_gyro_last_sample_us := (\<lambda>i. 4800000),
         imu_accel_last_sample_us := (\<lambda>i. 4800000),
         imu_delta_angle_acc := (\<lambda>i. Vector3f (Fin 1) (Fin 0) (Fin 0)),
         imu_delta_angle_acc_dt := (\<lambda>i. Fin (5 / 1000)),
         imu_delta_velocity_acc := (\<lambda>i. Vector3f (Fin 0) (Fin 0) (Fin 1)),
         imu_delta_velocity_acc_dt := (\<lambda>i. Fin (5 / 1000))\<rparr>"

definition env_next :: env where
  "env_next = env0\<lparr>hal_micros := 4801000, hal_micros64_stamp := 4801000,
         hal_micros64_now := 4801000, hal_micros_primary := 4801000\<rparr>"

text \<open>
  A state with a 39 Hz rate estimate whose observation window was opened at 3 s and has
  counted 999 samples, the last sample taken 1 ms before the clock of \<open>env0\<close>; and that
  clock while the sensors are still converging.
\<close>

definition state_39 :: "(unit, unit) state" where
  "state_39 = state0\<lparr>imu_gyro_raw_sample_rates := (\<lambda>i. Fin 39),
         imu_accel_raw_sample_rates := (\<lambda>i. Fin 39),
         imu_sample_gyro_count := (\<lambda>i. 999), imu_sample_gyro_start_us := (\<lambda>i. 3000000),
         imu_sample_accel_count := (\<lambda>i. 999), imu_sample_accel_start_us := (\<lambda>i. 3000000),
         imu_gyro_last_sample_us := (\<lambda>i. 4999000),
         imu_accel_last_sample_us := (\<lambda>i. 4999000)\<rparr>"

definition env_converging :: env where
  "env_converging = env0\<lparr>hal_millis64 := 1000\<rparr>"

section \<open>Vocabulary of the properties\<close>

text \<open>
  A sample is stale when the clock read under the semaphore is more than 100 ms past the
  previous sample time of the instance.
\<close>

definition stale :: "env \<Rightarrow> uint64_t \<Rightarrow> bool" where
  "stale e last_sample_us = (hal_micros64_now e - last_sample_us > 100000)"

text \<open>
  A raw sample carries its own time when it has a time stamp and the instance has a
  previous sample time; otherwise the time step comes from the rate estimate, which is
  read after this call's rate update, and the sample is dropped below 40 Hz.
\<close>

definition timestamped :: "uint64_t \<Rightarrow> uint64_t \<Rightarrow> bool" where
  "timestamped sample_us last_sample_us = (sample_us \<noteq> 0 \<and> last_sample_us \<noteq> 0)"

definition gyro_rate_now :: "env \<Rightarrow> uint8_t \<Rightarrow> ('f, 'n) state \<Rightarrow> f32" where
  "gyro_rate_now e i s = imu_gyro_raw_sample_rates (update_gyro_sensor_rate e i s) i"

definition accel_rate_now :: "env \<Rightarrow> uint8_t \<Rightarrow> ('f, 'n) state \<Rightarrow> f32" where
  "accel_rate_now e i s = imu_accel_raw_sample_rates (update_accel_sensor_rate e i s) i"

definition gyro_raw_dropped :: "env \<Rightarrow> uint8_t \<Rightarrow> uint64_t \<Rightarrow> ('f, 'n) state \<Rightarrow> bool" where
  "gyro_raw_dropped e i sample_us s =
     (\<not> timestamped sample_us (imu_gyro_last_sample_us s i) \<and> flt (gyro_rate_now e i s) (Fin 40))"

definition accel_raw_dropped :: "env \<Rightarrow> uint8_t \<Rightarrow> uint64_t \<Rightarrow> ('f, 'n) state \<Rightarrow> bool" where
  "accel_raw_dropped e i sample_us s =
     (\<not> timestamped sample_us (imu_accel_last_sample_us s i) \<and> flt (accel_rate_now e i s) (Fin 40))"

definition gyro_raw_dt :: "env \<Rightarrow> uint8_t \<Rightarrow> uint64_t \<Rightarrow> ('f, 'n) state \<Rightarrow> f32" where
  "gyro_raw_dt e i sample_us s =
     (if timestamped sample_us (imu_gyro_last_sample_us s i)
      then fmul (f32_of_nat (unat (sample_us - imu_gyro_last_sample_us s i))) (Fin (1 / 1000000))
      else fdiv (Fin 1) (gyro_rate_now e i s))"

definition accel_raw_dt :: "env \<Rightarrow> uint8_t \<Rightarrow> uint64_t \<Rightarrow> ('f, 'n) state \<Rightarrow> f32" where
  "accel_raw_dt e i sample_us s =
     (if timestamped sample_us (imu_accel_last_sample_us s i)
      then fmul (f32_of_nat (unat (sample_us - imu_accel_last_sample_us s i))) (Fin (1 / 1000000))
      else fdiv (Fin 1) (accel_rate_now e i s))"

text \<open>
  The delta formulas in the words of the specification: a scalar times a vector, the
  trapezoidal delta \<open>(current + previous_raw) * 0.5 * dt\<close>, and the coning term
  \<open>0.5 * ((accumulated_delta + previous_delta / 6) \<times> current_delta)\<close>.
\<close>

definition smul :: "f32 \<Rightarrow> vec3 \<Rightarrow> vec3" where
  "smul k a = Vector3f (fmul k (vx a)) (fmul k (vy a)) (fmul k (vz a))"

definition spec_trapezoid :: "vec3 \<Rightarrow> vec3 \<Rightarrow> f32 \<Rightarrow> vec3" where
  "spec_trapezoid current previous_raw dt = vscale (vscale (vadd current previous_raw) (Fin (1 / 2))) dt"

definition spec_coning :: "vec3 \<Rightarrow> vec3 \<Rightarrow> vec3 \<Rightarrow> vec3" where
  "spec_coning accumulated_delta previous_delta current_delta =
     smul (Fin (1 / 2)) (vcross (vadd accumulated_delta (vdiv previous_delta (Fin 6))) current_delta)"

text \<open>A vector with no NaN and no infinite component.\<close>

definition finite3 :: "vec3 \<Rightarrow> bool" where
  "finite3 v = (\<not> is_nan v \<and> \<not> is_inf v)"

text \<open>
  What the gyro filter chain reads and writes in the state: the notches, the low-pass
  filters, the FFT windows and the stored filtered value.
\<close>

definition filter_chain_state ::
  "('f, 'n) state \<Rightarrow>
     'n notch list \<times> (uint8_t \<Rightarrow> 'f) \<times> (uint8_t \<Rightarrow> 'f) \<times> (uint8_t \<Rightarrow> nat \<Rightarrow> f32 list)
       \<times> (uint8_t \<Rightarrow> vec3) \<times> (uint8_t \<Rightarrow> vec3)" where
  "filter_chain_state s =
     (imu_harmonic_notches s, imu_gyro_filter s, imu_post_filter_gyro_filter s, imu_gyro_window s,
      imu_last_gyro_for_fft s, imu_gyro_filtered s)"

text \<open>
  The time step of a delta notification, and the rate or acceleration that it rebuilds
  from the delta and then rotates and corrects.
\<close>

definition delta_angle_dt :: "env \<Rightarrow> uint8_t \<Rightarrow> ('f, 'n) state \<Rightarrow> f32" where
  "delta_angle_dt e i s = fdiv (Fin 1) (gyro_rate_now e i s)"

definition delta_velocity_dt :: "env \<Rightarrow> uint8_t \<Rightarrow> ('f, 'n) state \<Rightarrow> f32" where
  "delta_velocity_dt e i s = fdiv (Fin 1) (accel_rate_now e i s)"

definition delta_angle_gyro :: "('f, 'n) deps \<Rightarrow> env \<Rightarrow> uint8_t \<Rightarrow> vec3 \<Rightarrow> ('f, 'n) state \<Rightarrow> vec3" where
  "delta_angle_gyro D e i dangle s =
     fst (rotate_and_correct_gyro D e i (vdiv dangle (delta_angle_dt e i s)) s)"

definition delta_velocity_accel :: "('f, 'n) deps \<Rightarrow> env \<Rightarrow> uint8_t \<Rightarrow> vec3 \<Rightarrow> ('f, 'n) state \<Rightarrow> vec3" where
  "delta_velocity_accel D e i dvel s =
     fst (rotate_and_correct_accel D e i (vdiv dvel (delta_velocity_dt e i s)) s)"

section \<open>The contributions folded into the accumulators\<close>

text \<open>
  To state that the accumulated time is the sum of the time steps folded into the
  accumulator, each run is accompanied by a log per accumulator of one instance: the pairs
  (delta, dt) that the accumulation statements added since the accumulator was last
  zeroed. The log is emptied where the code zeroes the accumulator, and extended by the
  values that the two \<^verbatim>\<open>+=\<close> statements add.
\<close>

type_synonym contribution = "vec3 \<times> f32"

definition folded :: "bool \<Rightarrow> contribution \<Rightarrow> contribution list \<Rightarrow> contribution list" where
  "folded reset c lg = (if reset then [c] else lg @ [c])"

fun gyro_log :: "('f, 'n) deps \<Rightarrow> uint8_t \<Rightarrow> call \<Rightarrow> ('f, 'n) state \<Rightarrow> contribution list \<Rightarrow> contribution list" where
  "gyro_log D i (Notify_new_gyro_raw_sample e j gyro sample_us) s lg =
     (if j \<noteq> i \<or> has_been_killed s i \<or> gyro_raw_dropped e i sample_us s then lg
      else
        let dt = gyro_raw_dt e i sample_us s;
            delta_angle = vscale (vscale (vadd gyro (imu_last_raw_gyro s i)) (Fin (1 / 2))) dt;
            delta_coning = coning_correction s i delta_angle;
            st = stale e (imu_gyro_last_sample_us s i)
        in folded st (vadd (if st then vzero else delta_angle) delta_coning, if st then Fin 0 else dt) lg)"
| "gyro_log D i (Notify_new_delta_angle e j dangle) s lg =
     (if j \<noteq> i \<or> has_been_killed s i \<or> flt (gyro_rate_now e i s) (Fin 40) then lg
      else
        let dt = fdiv (Fin 1) (gyro_rate_now e i s);
            gyro = fst (rotate_and_correct_gyro D e i (vdiv dangle dt) s);
            delta_angle = vscale gyro dt;
            delta_coning = coning_correction s i delta_angle;
            st = stale e (imu_gyro_last_sample_us s i)
        in folded st (vadd (if st then vzero else delta_angle) delta_coning, if st then Fin 0 else dt) lg)"
| "gyro_log D i (Publish_gyro j gyro) s lg = (if j = i \<and> \<not> has_been_killed s i then [] else lg)"
| "gyro_log D i (Update_gyro e j) s lg =
     (if j = i \<and> \<not> has_been_killed s i \<and> imu_new_gyro_data s i then [] else lg)"
| "gyro_log D i c s lg = lg"

fun accel_log :: "('f, 'n) deps \<Rightarrow> uint8_t \<Rightarrow> call \<Rightarrow> ('f, 'n) state \<Rightarrow> contribution list \<Rightarrow> contribution list" where
  "accel_log D i (Notify_new_accel_raw_sample e j accel sample_us fsync_set) s lg =
     (if j \<noteq> i \<or> has_been_killed s i \<or> accel_raw_dropped e i sample_us s then lg
      else
        let dt = accel_raw_dt e i sample_us s;
            st = stale e (imu_accel_last_sample_us s i);
            dt = (if st then Fin 0 else dt)
        in folded st (vscale accel dt, dt) lg)"
| "accel_log D i (Notify_new_delta_velocity e j dvel) s lg =
     (if j \<noteq> i \<or> has_been_killed s i \<or> flt (accel_rate_now e i s) (Fin 40) then lg
      else
        let dt = fdiv (Fin 1) (accel_rate_now e i s);
            accel = fst (rotate_and_correct_accel D e i (vdiv dvel dt) s);
            st = stale e (imu_accel_last_sample_us s i);
            dt = (if st then Fin 0 else dt)
        in folded st (vscale accel dt, dt) lg)"
| "accel_log D i (Publish_accel e j accel) s lg = (if j = i \<and> \<not> has_been_killed s i then [] else lg)"
| "accel_log D i (Update_accel e j) s lg =
     (if j = i \<and> \<not> has_been_killed s i \<and> imu_new_accel_data s i then [] else lg)"
| "accel_log D i c s lg = lg"

text \<open>A run together with the two logs of instance \<open>i\<close>.\<close>

fun run_logged ::
  "('f, 'n) deps \<Rightarrow> uint8_t \<Rightarrow> call list \<Rightarrow> ('f, 'n) state \<times> contribution list \<times> contribution list
     \<Rightarrow> ('f, 'n) state \<times> contribution list \<times> contribution list" where
  "run_logged D i [] r = r"
| "run_logged D i (c # cs) (s, glog, alog) =
     run_logged D i cs (step D c s, gyro_log D i c s glog, accel_log D i c s alog)"

text \<open>The sums, accumulated from zero in the order of arrival as the code does.\<close>

definition sum_delta :: "contribution list \<Rightarrow> vec3" where
  "sum_delta lg = foldl vadd vzero (map fst lg)"

definition sum_dt :: "contribution list \<Rightarrow> f32" where
  "sum_dt lg = foldl fadd (Fin 0) (map snd lg)"

definition accumulators_match ::
  "uint8_t \<Rightarrow> ('f, 'n) state \<times> contribution list \<times> contribution list \<Rightarrow> bool" where
  "accumulators_match i = (\<lambda>(s, glog, alog).
     imu_delta_angle_acc s i = sum_delta glog \<and> imu_delta_angle_acc_dt s i = sum_dt glog \<and>
     imu_delta_velocity_acc s i = sum_delta alog \<and> imu_delta_velocity_acc_dt s i = sum_dt alog)"

text \<open>Repeated reconciliation of the primary state, one clock reading per call.\<close>

fun update_primary_all :: "env list \<Rightarrow> ('f, 'n) state \<Rightarrow> ('f, 'n) state" where
  "update_primary_all [] s = s"
| "update_primary_all (e # es) s = update_primary_all es (update_primary e s)"

definition primary_unchanged :: "('f, 'n) state \<Rightarrow> env \<Rightarrow> bool" where
  "primary_unchanged s e =
     (is_primary s = (gyro_instance s = imu_primary e) \<and>
      \<not> hal_micros_primary e - last_primary_update_us s > 200000)"

section \<open>The concrete configuration, field by field\<close>

lemma state0_fields:
  "imu_sample_gyro_count state0 = (\<lambda>i. 0) \<and>
   imu_sample_gyro_start_us state0 = (\<lambda>i. 0) \<and>
   imu_gyro_raw_sample_rates state0 = (\<lambda>i. Fin 1000) \<and>
   imu_gyro_last_sample_us state0 = (\<lambda>i. 0) \<and>
   imu_last_raw_gyro state0 = (\<lambda>i. vzero) \<and>
   imu_last_delta_angle state0 = (\<lambda>i. vzero) \<and>
   imu_delta_angle_acc state0 = (\<lambda>i. vzero) \<and>
   imu_delta_angle_acc_dt state0 = (\<lambda>i. Fin 0) \<and>
   imu_delta_angle state0 = (\<lambda>i. vzero) \<and>
   imu_delta_angle_dt state0 = (\<lambda>i. Fin 0) \<and>
   imu_delta_angle_valid state0 = (\<lambda>i. False) \<and>
   imu_gyro state0 = (\<lambda>i. vzero) \<and>
   imu_gyro_healthy state0 = (\<lambda>i. False) \<and>
   imu_gyro_filtered state0 = (\<lambda>i. vzero) \<and>
   imu_new_gyro_data state0 = (\<lambda>i. False) \<and>
   imu_gyro_filter state0 = (\<lambda>i. ()) \<and>
   imu_post_filter_gyro_filter state0 = (\<lambda>i. ()) \<and>
   imu_harmonic_notches state0 = [] \<and>
   imu_gyro_window state0 = (\<lambda>i k. []) \<and>
   imu_last_gyro_for_fft state0 = (\<lambda>i. vzero) \<and>
   imu_gyro_for_fft state0 = (\<lambda>i. vzero) \<and>
   imu_gyro_error_count state0 = (\<lambda>i. 0) \<and>
   imu_gyro_over_sampling state0 = (\<lambda>i. 1) \<and>
   imu_sample_accel_count state0 = (\<lambda>i. 0) \<and>
   imu_sample_accel_start_us state0 = (\<lambda>i. 0) \<and>
   imu_accel_raw_sample_rates state0 = (\<lambda>i. Fin 1000) \<and>
   imu_accel_last_sample_us state0 = (\<lambda>i. 0) \<and>
   imu_delta_velocity_acc state0 = (\<lambda>i. vzero) \<and>
   imu_delta_velocity_acc_dt state0 = (\<lambda>i. Fin 0) \<and>
   imu_delta_velocity state0 = (\<lambda>i. vzero) \<and>
   imu_delta_velocity_dt state0 = (\<lambda>i. Fin 0) \<and>
   imu_delta_velocity_valid state0 = (\<lambda>i. False) \<and>
   imu_accel state0 = (\<lambda>i. vzero) \<and>
   imu_accel_healthy state0 = (\<lambda>i. False) \<and>
   imu_accel_filtered state0 = (\<lambda>i. vzero) \<and>
   imu_new_accel_data state0 = (\<lambda>i. False) \<and>
   imu_accel_filter state0 = (\<lambda>i. ()) \<and>
   imu_accel_error_count state0 = (\<lambda>i. 0) \<and>
   imu_accel_over_sampling state0 = (\<lambda>i. 1) \<and>
   imu_temperature state0 = (\<lambda>i. Fin 25) \<and>
   imu_killed state0 = (\<lambda>i. False) \<and>
   is_primary state0 = True \<and>
   last_primary_update_us state0 = 5000000 \<and>
   gyro_instance state0 = 0 \<and>
   last_gyro_filter_hz state0 = 0 \<and>
   last_accel_filter_hz state0 = 0 \<and>
   events state0 = []"
  by (simp add: state0_def)

lemma env0_fields:
  "hal_micros env0 = 5000000 \<and>
   hal_micros64_stamp env0 = 5000000 \<and>
   hal_micros64_now env0 = 5000000 \<and>
   hal_micros_primary env0 = 5000000 \<and>
   hal_millis64 env0 = 60000 \<and>
   hal_soft_armed env0 = False \<and>
   hal_opticalflow env0 = False \<and>
   HAL_INS_CONVERGANCE_MS env0 = 30000 \<and>
   imu_primary env0 = 0 \<and>
   imu_accel_orientation env0 = (\<lambda>i. 0) \<and>
   imu_gyro_orientation env0 = (\<lambda>i. 0) \<and>
   imu_board_orientation env0 = 0 \<and>
   imu_tcal_learning env0 = False \<and>
   imu_calibrating_accel env0 = False \<and>
   imu_calibrating_gyro env0 = False \<and>
   imu_acal_running env0 = False \<and>
   imu_caltemp_accel env0 = (\<lambda>i. Fin 0) \<and>
   imu_caltemp_gyro env0 = (\<lambda>i. Fin 0) \<and>
   imu_accel_offset env0 = (\<lambda>i. vzero) \<and>
   imu_accel_scale env0 = (\<lambda>i. Vector3f (Fin 1) (Fin 1) (Fin 1)) \<and>
   imu_gyro_offset env0 = (\<lambda>i. vzero) \<and>
   imu_accel_cal_collecting env0 = (\<lambda>i. False) \<and>
   imu_fft_window_phase env0 = 0 \<and>
   imu_gyro_window_size env0 = 0 \<and>
   imu_post_filter_fft env0 = False \<and>
   imu_gyro_raw_sampling_multiplier env0 = (\<lambda>i. Fin 1) \<and>
   imu_is_rate_loop_gyro_enabled env0 = (\<lambda>i. False) \<and>
   imu_push_next_gyro_sample env0 = False \<and>
   batchsampler_doing_post_filter_logging env0 = False \<and>
   board_config_present env0 = False \<and>
   gyro_filter_cutoff env0 = 0 \<and>
   accel_filter_cutoff env0 = 0"
  by (simp add: env0_def)

lemma passthrough_fields:
  "lpf_apply passthrough = (\<lambda>f v. (f, v)) \<and>
   lpf_reset passthrough = (\<lambda>f. f) \<and>
   lpf_set_cutoff_frequency passthrough = (\<lambda>f r c. f) \<and>
   notch_apply passthrough = (\<lambda>n v. (n, v)) \<and>
   notch_reset passthrough = (\<lambda>n. n) \<and>
   notch_update_params passthrough = (\<lambda>n i c r. n) \<and>
   rotate passthrough = (\<lambda>r v. v) \<and>
   rotate_inverse passthrough = (\<lambda>r v. v) \<and>
   tcal_correct_accel passthrough = (\<lambda>i t c v. v) \<and>
   tcal_correct_gyro passthrough = (\<lambda>i t c v. v) \<and>
   window_push passthrough = (\<lambda>w a. w @ [a])"
  by (simp add: passthrough_def)

lemma state1_fields:
  "imu_killed state1 = (\<lambda>i. False) \<and>
   imu_delta_angle_acc state1 = (\<lambda>i. Vector3f (Fin 1) (Fin 2) (Fin 3)) \<and>
   imu_delta_angle_acc_dt state1 = (\<lambda>i. Fin (1 / 100)) \<and>
   imu_delta_velocity_acc state1 = (\<lambda>i. Vector3f (Fin 4) (Fin 5) (Fin 6)) \<and>
   imu_delta_velocity_acc_dt state1 = (\<lambda>i. Fin (2 / 100))"
  by (simp add: state1_def state0_def)

lemma state_slow_fields:
  "imu_killed state_slow = (\<lambda>i. False) \<and>
   imu_gyro_raw_sample_rates state_slow = (\<lambda>i. Fin 30) \<and>
   imu_accel_raw_sample_rates state_slow = (\<lambda>i. Fin 30) \<and>
   imu_sample_gyro_count state_slow = (\<lambda>i. 0) \<and>
   imu_sample_gyro_start_us state_slow = (\<lambda>i. 0) \<and>
   imu_sample_accel_count state_slow = (\<lambda>i. 0) \<and>
   imu_sample_accel_start_us state_slow = (\<lambda>i. 0) \<and>
   imu_delta_angle_acc_dt state_slow = (\<lambda>i. Fin 0) \<and>
   imu_delta_velocity_acc_dt state_slow = (\<lambda>i. Fin 0) \<and>
   imu_gyro_last_sample_us state_slow = (\<lambda>i. 0) \<and>
   imu_accel_last_sample_us state_slow = (\<lambda>i. 0) \<and>
   events state_slow = []"
  by (simp add: state_slow_def state0_def)

lemma state_gap_fields:
  "imu_killed state_gap = (\<lambda>i. False) \<and>
   imu_gyro_last_sample_us state_gap = (\<lambda>i. 4800000) \<and>
   imu_accel_last_sample_us state_gap = (\<lambda>i. 4800000) \<and>
   imu_delta_angle_acc state_gap = (\<lambda>i. Vector3f (Fin 1) (Fin 0) (Fin 0)) \<and>
   imu_delta_angle_acc_dt state_gap = (\<lambda>i. Fin (5 / 1000)) \<and>
   imu_delta_velocity_acc state_gap = (\<lambda>i. Vector3f (Fin 0) (Fin 0) (Fin 1)) \<and>
   imu_delta_velocity_acc_dt state_gap = (\<lambda>i. Fin (5 / 1000)) \<and>
   imu_last_raw_gyro state_gap = (\<lambda>i. vzero) \<and>
   imu_last_delta_angle state_gap = (\<lambda>i. vzero) \<and>
   imu_gyro_raw_sample_rates state_gap = (\<lambda>i. Fin 1000) \<and>
   imu_accel_raw_sample_rates state_gap = (\<lambda>i. Fin 1000) \<and>
   imu_sample_gyro_count state_gap = (\<lambda>i. 0) \<and>
   imu_sample_gyro_start_us state_gap = (\<lambda>i. 0) \<and>
   imu_sample_accel_count state_gap = (\<lambda>i. 0) \<and>
   imu_sample_accel_start_us state_gap = (\<lambda>i. 0) \<and>
   imu_accel_filter state_gap = (\<lambda>i. ()) \<and>
   imu_accel_filtered state_gap = (\<lambda>i. vzero)"
  by (simp add: state_gap_def state0_def)

lemma env_next_fields:
  "hal_micros env_next = 4801000 \<and> hal_micros64_stamp env_next = 4801000 \<and>
   hal_micros64_now env_next = 4801000"
  by (simp add: env_next_def)

lemma state_39_fields:
  "imu_killed state_39 = (\<lambda>i. False) \<and>
   imu_gyro_raw_sample_rates state_39 = (\<lambda>i. Fin 39) \<and>
   imu_accel_raw_sample_rates state_39 = (\<lambda>i. Fin 39) \<and>
   imu_sample_gyro_count state_39 = (\<lambda>i. 999) \<and>
   imu_sample_gyro_start_us state_39 = (\<lambda>i. 3000000) \<and>
   imu_sample_accel_count state_39 = (\<lambda>i. 999) \<and>
   imu_sample_accel_start_us state_39 = (\<lambda>i. 3000000) \<and>
   imu_gyro_last_sample_us state_39 = (\<lambda>i. 4999000) \<and>
   imu_accel_last_sample_us state_39 = (\<lambda>i. 4999000) \<and>
   imu_delta_angle_acc_dt state_39 = (\<lambda>i. Fin 0) \<and>
   imu_delta_velocity_acc_dt state_39 = (\<lambda>i. Fin 0) \<and>
   imu_new_gyro_data state_39 = (\<lambda>i. False) \<and>
   imu_new_accel_data state_39 = (\<lambda>i. False)"
  by (simp add: state_39_def state0_def)

lemma env_converging_fields:
  "hal_micros env_converging = 5000000 \<and> hal_micros64_stamp env_converging = 5000000 \<and>
   hal_micros64_now env_converging = 5000000 \<and> hal_millis64 env_converging = 1000 \<and>
   HAL_INS_CONVERGANCE_MS env_converging = 30000 \<and> hal_soft_armed env_converging = False"
  by (simp add: env_converging_def env0_def)

lemmas vec_ops = vadd_def vscale_def vcross_def vdiv_def vzero_def smul_def fsub_def
  spec_trapezoid_def spec_coning_def f32_of_nat_def

lemma gap_facts:
  "\<not> has_been_killed state_gap 0"
  "gyro_rate_now env0 0 state_gap = Fin 1000"
  "accel_rate_now env0 0 state_gap = Fin 1000"
  "gyro_rate_now env_next 0 state_gap = Fin 1000"
  "accel_rate_now env_next 0 state_gap = Fin 1000"
  "stale env0 (imu_gyro_last_sample_us state_gap 0)"
  "stale env0 (imu_accel_last_sample_us state_gap 0)"
  "\<not> stale env_next (imu_gyro_last_sample_us state_gap 0)"
  "\<not> stale env_next (imu_accel_last_sample_us state_gap 0)"
  by (simp_all add: has_been_killed_def gyro_rate_now_def accel_rate_now_def
      update_gyro_sensor_rate_def update_accel_sensor_rate_def update_sensor_rate_def
      stale_def state_gap_fields env0_fields env_next_fields)


section \<open>Frame lemmas\<close>

lemma save_gyro_window_frame:
  "save_gyro_window D e i g p s =
     s\<lparr>imu_post_filter_gyro_filter := imu_post_filter_gyro_filter (save_gyro_window D e i g p s),
       imu_gyro_window := imu_gyro_window (save_gyro_window D e i g p s),
       imu_last_gyro_for_fft := imu_last_gyro_for_fft (save_gyro_window D e i g p s)\<rparr>"
  by (simp add: save_gyro_window_def Let_def)

lemma fft_frame_trans:
  fixes s :: "('f, 'n) state"
  assumes "s1 = s\<lparr>imu_post_filter_gyro_filter := a1, imu_gyro_window := b1, imu_last_gyro_for_fft := c1\<rparr>"
      and "s2 = s1\<lparr>imu_post_filter_gyro_filter := a2, imu_gyro_window := b2, imu_last_gyro_for_fft := c2\<rparr>"
    shows "s2 = s\<lparr>imu_post_filter_gyro_filter := imu_post_filter_gyro_filter s2,
                   imu_gyro_window := imu_gyro_window s2,
                   imu_last_gyro_for_fft := imu_last_gyro_for_fft s2\<rparr>"
  using assms by simp

lemma apply_notches_frame:
  "snd (snd (snd (apply_notches D e i ns g p s))) =
     s\<lparr>imu_post_filter_gyro_filter := imu_post_filter_gyro_filter (snd (snd (snd (apply_notches D e i ns g p s)))),
       imu_gyro_window := imu_gyro_window (snd (snd (snd (apply_notches D e i ns g p s)))),
       imu_last_gyro_for_fft := imu_last_gyro_for_fft (snd (snd (snd (apply_notches D e i ns g p s))))\<rparr>"
proof (induction ns arbitrary: g p s)
  case Nil
  show ?case by simp
next
  case (Cons n ns)
  show ?case
  proof (cases "params_enabled n")
    case False
    then show ?thesis using Cons.IH[of g p s] by (simp add: case_prod_beta)
  next
    case True
    define r where "r = (if is_inactive n \<or> (\<not> EnableOnAllIMUs n \<and> i \<noteq> imu_primary e)
                 then (notch_reset D (filter n i), g)
                 else notch_apply D (filter n i) g)"
    define s1 where "s1 = save_gyro_window D e i (snd r) p s"
    have eq: "snd (snd (snd (apply_notches D e i (n # ns) g p s)))
            = snd (snd (snd (apply_notches D e i ns (snd r) (p + 1) s1)))"
      using True by (simp add: case_prod_beta Let_def r_def s1_def)
    show ?thesis
      unfolding eq
      by (rule fft_frame_trans[OF save_gyro_window_frame[of D e i "snd r" p s, folded s1_def] Cons.IH[of "snd r" "p + 1" s1]])
  qed
qed



lemma apply_gyro_filters_untouched:
  "imu_killed (apply_gyro_filters D e i g s) = imu_killed s \<and>
   imu_delta_angle_acc (apply_gyro_filters D e i g s) = imu_delta_angle_acc s \<and>
   imu_delta_angle_acc_dt (apply_gyro_filters D e i g s) = imu_delta_angle_acc_dt s \<and>
   imu_delta_velocity_acc (apply_gyro_filters D e i g s) = imu_delta_velocity_acc s \<and>
   imu_delta_velocity_acc_dt (apply_gyro_filters D e i g s) = imu_delta_velocity_acc_dt s \<and>
   imu_last_raw_gyro (apply_gyro_filters D e i g s) = imu_last_raw_gyro s \<and>
   imu_last_delta_angle (apply_gyro_filters D e i g s) = imu_last_delta_angle s \<and>
   imu_new_gyro_data (apply_gyro_filters D e i g s) = imu_new_gyro_data s \<and>
   imu_gyro_last_sample_us (apply_gyro_filters D e i g s) = imu_gyro_last_sample_us s \<and>
   is_primary (apply_gyro_filters D e i g s) = is_primary s \<and>
   last_primary_update_us (apply_gyro_filters D e i g s) = last_primary_update_us s \<and>
   gyro_instance (apply_gyro_filters D e i g s) = gyro_instance s \<and>
   imu_gyro_raw_sample_rates (apply_gyro_filters D e i g s) = imu_gyro_raw_sample_rates s \<and>
   imu_sample_gyro_count (apply_gyro_filters D e i g s) = imu_sample_gyro_count s \<and>
   imu_sample_gyro_start_us (apply_gyro_filters D e i g s) = imu_sample_gyro_start_us s"
proof -
  define s0 where "s0 = save_gyro_window D e i g 0 s"
  obtain ns gf ph s1 where r: "apply_notches D e i (imu_harmonic_notches s0) g 1 s0 = (ns, gf, ph, s1)"
    by (metis prod_cases4)
  have "s1 = snd (snd (snd (apply_notches D e i (imu_harmonic_notches s0) g 1 s0)))"
    by (simp add: r)
  then have f1: "s1 = s\<lparr>imu_post_filter_gyro_filter := imu_post_filter_gyro_filter s1,
                   imu_gyro_window := imu_gyro_window s1,
                   imu_last_gyro_for_fft := imu_last_gyro_for_fft s1\<rparr>"
    using fft_frame_trans[OF save_gyro_window_frame[of D e i g 0 s, folded s0_def] apply_notches_frame] by simp
  obtain a b c where s1: "s1 = s\<lparr>imu_post_filter_gyro_filter := a, imu_gyro_window := b, imu_last_gyro_for_fft := c\<rparr>"
    using f1 by blast
  show ?thesis
    unfolding apply_gyro_filters_def Let_def s0_def[symmetric] r prod.case s1 emit_def
    by simp
qed

lemma update_primary_killed: "imu_killed (update_primary e s) = imu_killed s"
  by (simp add: update_primary_def Let_def emit_def)

lemma integrate_delta_angle_killed:
  "imu_killed (integrate_delta_angle D e i gyro dt da dc lst s) = imu_killed s"
  by (simp add: integrate_delta_angle_def Let_def apply_gyro_filters_untouched)

lemma integrate_delta_velocity_killed:
  "imu_killed (integrate_delta_velocity D e i accel dt lst s) = imu_killed s"
  by (simp add: integrate_delta_velocity_def Let_def emit_def)

lemma notify_gyro_raw_killed:
  "imu_killed (notify_new_gyro_raw_sample D e i gyro sample_us s) = imu_killed s"
  by (simp add: notify_new_gyro_raw_sample_def Let_def update_primary_killed emit_def
      integrate_delta_angle_killed gyro_sample_taps_def update_gyro_sensor_rate_def split: prod.splits)

lemma notify_delta_angle_killed:
  "imu_killed (notify_new_delta_angle D e i dangle s) = imu_killed s"
  by (simp add: notify_new_delta_angle_def Let_def update_primary_killed emit_def
      integrate_delta_angle_killed gyro_sample_taps_def update_gyro_sensor_rate_def
      rotate_and_correct_gyro_def split: prod.splits)

lemma notify_accel_raw_killed:
  "imu_killed (notify_new_accel_raw_sample D e i accel sample_us fs s) = imu_killed s"
  by (simp add: notify_new_accel_raw_sample_def Let_def emit_def log_accel_tap_def
      integrate_delta_velocity_killed update_accel_sensor_rate_def split: prod.splits)

lemma notify_delta_velocity_killed:
  "imu_killed (notify_new_delta_velocity D e i dvel s) = imu_killed s"
  by (simp add: notify_new_delta_velocity_def Let_def emit_def log_accel_tap_def
      integrate_delta_velocity_killed update_accel_sensor_rate_def
      rotate_and_correct_accel_def split: prod.splits)

lemma step_killed: "imu_killed (step D c s) = imu_killed s"
proof (cases c)
  case (Notify_new_gyro_raw_sample e i gyro sample_us)
  then show ?thesis by (simp add: notify_gyro_raw_killed)
next
  case (Notify_new_delta_angle e i dangle)
  then show ?thesis by (simp add: notify_delta_angle_killed)
next
  case (Notify_new_accel_raw_sample e i accel sample_us fs)
  then show ?thesis by (simp add: notify_accel_raw_killed)
next
  case (Notify_new_delta_velocity e i dvel)
  then show ?thesis by (simp add: notify_delta_velocity_killed)
qed (simp_all add: notify_accel_fifo_reset_def notify_gyro_fifo_reset_def set_accel_oversampling_def
      set_gyro_oversampling_def publish_gyro_def publish_accel_def publish_temperature_def
      inc_accel_error_count_def inc_gyro_error_count_def update_gyro_def update_accel_def
      update_gyro_filters_def update_accel_filters_def update_primary_killed Let_def emit_def)

lemma run_killed: "imu_killed (run D cs s) = imu_killed s"
  by (induction cs arbitrary: s) (simp_all add: step_killed)

text \<open>
  C6. On an instance whose killed flag is set, every sample notification (raw and delta,
  gyro and accel), both publish calls and both update calls return the state unchanged;
  and no run of calls of the backend changes the killed flag, so a killed instance stays
  killed.
\<close>

theorem killed_instance_is_inert:
  "has_been_killed s i \<Longrightarrow>
     notify_new_gyro_raw_sample D e i gyro sample_us s = s \<and>
     notify_new_delta_angle D e i dangle s = s \<and>
     notify_new_accel_raw_sample D e i accel sample_us fsync_set s = s \<and>
     notify_new_delta_velocity D e i dvel s = s \<and>
     publish_gyro i gyro s = s \<and>
     publish_accel D e i accel s = s \<and>
     update_gyro D e i s = s \<and>
     update_accel D e i s = s \<and>
     has_been_killed (run D cs s) i"
  by (simp add: notify_new_gyro_raw_sample_def notify_new_delta_angle_def
      notify_new_accel_raw_sample_def notify_new_delta_velocity_def publish_gyro_def
      publish_accel_def update_gyro_def update_accel_def has_been_killed_def run_killed)

theorem killed_instance_is_inert_witness:
  "has_been_killed (state0\<lparr>imu_killed := (\<lambda>i. i = 1)\<rparr>) 1 \<and>
   notify_new_gyro_raw_sample passthrough env0 1 (Vector3f (Fin 1) (Fin 0) (Fin 0)) 0
     (state0\<lparr>imu_killed := (\<lambda>i. i = 1)\<rparr>) = state0\<lparr>imu_killed := (\<lambda>i. i = 1)\<rparr> \<and>
   update_gyro passthrough env0 1 (state0\<lparr>imu_killed := (\<lambda>i. i = 1)\<rparr>) = state0\<lparr>imu_killed := (\<lambda>i. i = 1)\<rparr> \<and>
   has_been_killed (run passthrough [Notify_gyro_fifo_reset 1, Update_primary env0]
     (state0\<lparr>imu_killed := (\<lambda>i. i = 1)\<rparr>)) 1"
  using killed_instance_is_inert [of "state0\<lparr>imu_killed := (\<lambda>i. i = 1)\<rparr>" 1 passthrough env0
      "Vector3f (Fin 1) (Fin 0) (Fin 0)" 0 vzero vzero False vzero "[Notify_gyro_fifo_reset 1, Update_primary env0]"]
  by (simp add: has_been_killed_def)

section \<open>Effect of the calls on the accumulators\<close>

lemma integrate_delta_angle_effect:
  "imu_delta_angle_acc (integrate_delta_angle D e i gyro dt da dc lst s) =
     (imu_delta_angle_acc s)(i :=
        vadd (if stale e lst then vzero else imu_delta_angle_acc s i)
             (vadd (if stale e lst then vzero else da) dc)) \<and>
   imu_delta_angle_acc_dt (integrate_delta_angle D e i gyro dt da dc lst s) =
     (imu_delta_angle_acc_dt s)(i :=
        fadd (if stale e lst then Fin 0 else imu_delta_angle_acc_dt s i)
             (if stale e lst then Fin 0 else dt)) \<and>
   imu_last_delta_angle (integrate_delta_angle D e i gyro dt da dc lst s) =
     (imu_last_delta_angle s)(i := if stale e lst then vzero else da) \<and>
   imu_last_raw_gyro (integrate_delta_angle D e i gyro dt da dc lst s) =
     (imu_last_raw_gyro s)(i := gyro) \<and>
   imu_new_gyro_data (integrate_delta_angle D e i gyro dt da dc lst s) =
     (imu_new_gyro_data s)(i := True) \<and>
   imu_delta_velocity_acc (integrate_delta_angle D e i gyro dt da dc lst s) = imu_delta_velocity_acc s \<and>
   imu_delta_velocity_acc_dt (integrate_delta_angle D e i gyro dt da dc lst s) = imu_delta_velocity_acc_dt s \<and>
   is_primary (integrate_delta_angle D e i gyro dt da dc lst s) = is_primary s \<and>
   gyro_instance (integrate_delta_angle D e i gyro dt da dc lst s) = gyro_instance s \<and>
   last_primary_update_us (integrate_delta_angle D e i gyro dt da dc lst s) = last_primary_update_us s"
  by (simp add: integrate_delta_angle_def Let_def apply_gyro_filters_untouched stale_def)

lemma integrate_delta_velocity_effect:
  "imu_delta_velocity_acc (integrate_delta_velocity D e i accel dt lst s) =
     (imu_delta_velocity_acc s)(i :=
        vadd (if stale e lst then vzero else imu_delta_velocity_acc s i)
             (vscale accel (if stale e lst then Fin 0 else dt))) \<and>
   imu_delta_velocity_acc_dt (integrate_delta_velocity D e i accel dt lst s) =
     (imu_delta_velocity_acc_dt s)(i :=
        fadd (if stale e lst then Fin 0 else imu_delta_velocity_acc_dt s i)
             (if stale e lst then Fin 0 else dt)) \<and>
   imu_accel_filtered (integrate_delta_velocity D e i accel dt lst s) =
     (imu_accel_filtered s)(i := snd (lpf_apply D (imu_accel_filter s i) accel)) \<and>
   imu_new_accel_data (integrate_delta_velocity D e i accel dt lst s) =
     (imu_new_accel_data s)(i := True) \<and>
   imu_delta_angle_acc (integrate_delta_velocity D e i accel dt lst s) = imu_delta_angle_acc s \<and>
   imu_delta_angle_acc_dt (integrate_delta_velocity D e i accel dt lst s) = imu_delta_angle_acc_dt s"
  by (simp add: integrate_delta_velocity_def Let_def emit_def stale_def)

lemma update_primary_untouched:
  "imu_delta_angle_acc (update_primary e s) = imu_delta_angle_acc s \<and>
   imu_delta_angle_acc_dt (update_primary e s) = imu_delta_angle_acc_dt s \<and>
   imu_delta_velocity_acc (update_primary e s) = imu_delta_velocity_acc s \<and>
   imu_delta_velocity_acc_dt (update_primary e s) = imu_delta_velocity_acc_dt s \<and>
   imu_last_delta_angle (update_primary e s) = imu_last_delta_angle s \<and>
   imu_last_raw_gyro (update_primary e s) = imu_last_raw_gyro s \<and>
   imu_new_gyro_data (update_primary e s) = imu_new_gyro_data s \<and>
   imu_gyro_filtered (update_primary e s) = imu_gyro_filtered s"
  by (simp add: update_primary_def Let_def emit_def)

lemma notify_gyro_raw_effect:
  assumes "\<not> has_been_killed s i" and "\<not> gyro_raw_dropped e i sample_us s"
  shows "imu_delta_angle_acc (notify_new_gyro_raw_sample D e i gyro sample_us s) =
     (imu_delta_angle_acc s)(i :=
        vadd (if stale e (imu_gyro_last_sample_us s i) then vzero else imu_delta_angle_acc s i)
          (vadd (if stale e (imu_gyro_last_sample_us s i) then vzero
                 else vscale (vscale (vadd gyro (imu_last_raw_gyro s i)) (Fin (1 / 2))) (gyro_raw_dt e i sample_us s))
            (coning_correction s i
               (vscale (vscale (vadd gyro (imu_last_raw_gyro s i)) (Fin (1 / 2))) (gyro_raw_dt e i sample_us s))))) \<and>
   imu_delta_angle_acc_dt (notify_new_gyro_raw_sample D e i gyro sample_us s) =
     (imu_delta_angle_acc_dt s)(i :=
        fadd (if stale e (imu_gyro_last_sample_us s i) then Fin 0 else imu_delta_angle_acc_dt s i)
             (if stale e (imu_gyro_last_sample_us s i) then Fin 0 else gyro_raw_dt e i sample_us s)) \<and>
   imu_last_raw_gyro (notify_new_gyro_raw_sample D e i gyro sample_us s) = (imu_last_raw_gyro s)(i := gyro) \<and>
   imu_new_gyro_data (notify_new_gyro_raw_sample D e i gyro sample_us s) = (imu_new_gyro_data s)(i := True) \<and>
   imu_delta_velocity_acc (notify_new_gyro_raw_sample D e i gyro sample_us s) = imu_delta_velocity_acc s \<and>
   imu_delta_velocity_acc_dt (notify_new_gyro_raw_sample D e i gyro sample_us s) = imu_delta_velocity_acc_dt s"
  using assms
  by (auto simp add: notify_new_gyro_raw_sample_def Let_def update_primary_untouched emit_def
      integrate_delta_angle_effect gyro_sample_taps_def update_gyro_sensor_rate_def
      gyro_raw_dropped_def gyro_raw_dt_def gyro_rate_now_def timestamped_def coning_correction_def
      split: prod.splits)

lemma notify_delta_angle_effect:
  assumes "\<not> has_been_killed s i" and "\<not> flt (gyro_rate_now e i s) (Fin 40)"
  shows "imu_delta_angle_acc (notify_new_delta_angle D e i dangle s) =
     (imu_delta_angle_acc s)(i :=
        vadd (if stale e (imu_gyro_last_sample_us s i) then vzero else imu_delta_angle_acc s i)
          (vadd (if stale e (imu_gyro_last_sample_us s i) then vzero
                 else vscale (fst (rotate_and_correct_gyro D e i
                        (vdiv dangle (fdiv (Fin 1) (gyro_rate_now e i s))) s))
                      (fdiv (Fin 1) (gyro_rate_now e i s)))
            (coning_correction s i
               (vscale (fst (rotate_and_correct_gyro D e i
                        (vdiv dangle (fdiv (Fin 1) (gyro_rate_now e i s))) s))
                      (fdiv (Fin 1) (gyro_rate_now e i s)))))) \<and>
   imu_delta_angle_acc_dt (notify_new_delta_angle D e i dangle s) =
     (imu_delta_angle_acc_dt s)(i :=
        fadd (if stale e (imu_gyro_last_sample_us s i) then Fin 0 else imu_delta_angle_acc_dt s i)
             (if stale e (imu_gyro_last_sample_us s i) then Fin 0 else fdiv (Fin 1) (gyro_rate_now e i s))) \<and>
   imu_delta_velocity_acc (notify_new_delta_angle D e i dangle s) = imu_delta_velocity_acc s \<and>
   imu_delta_velocity_acc_dt (notify_new_delta_angle D e i dangle s) = imu_delta_velocity_acc_dt s"
  using assms
  by (auto simp add: notify_new_delta_angle_def Let_def update_primary_untouched emit_def
      integrate_delta_angle_effect gyro_sample_taps_def update_gyro_sensor_rate_def
      gyro_rate_now_def coning_correction_def rotate_and_correct_gyro_def
      split: prod.splits)

lemma notify_accel_raw_effect:
  assumes "\<not> has_been_killed s i" and "\<not> accel_raw_dropped e i sample_us s"
  shows "imu_delta_velocity_acc (notify_new_accel_raw_sample D e i accel sample_us fsync_set s) =
     (imu_delta_velocity_acc s)(i :=
        vadd (if stale e (imu_accel_last_sample_us s i) then vzero else imu_delta_velocity_acc s i)
             (vscale accel (if stale e (imu_accel_last_sample_us s i) then Fin 0
                            else accel_raw_dt e i sample_us s))) \<and>
   imu_delta_velocity_acc_dt (notify_new_accel_raw_sample D e i accel sample_us fsync_set s) =
     (imu_delta_velocity_acc_dt s)(i :=
        fadd (if stale e (imu_accel_last_sample_us s i) then Fin 0 else imu_delta_velocity_acc_dt s i)
             (if stale e (imu_accel_last_sample_us s i) then Fin 0 else accel_raw_dt e i sample_us s)) \<and>
   imu_accel_filtered (notify_new_accel_raw_sample D e i accel sample_us fsync_set s) =
     (imu_accel_filtered s)(i := snd (lpf_apply D (imu_accel_filter s i) accel)) \<and>
   imu_new_accel_data (notify_new_accel_raw_sample D e i accel sample_us fsync_set s) =
     (imu_new_accel_data s)(i := True) \<and>
   imu_delta_angle_acc (notify_new_accel_raw_sample D e i accel sample_us fsync_set s) = imu_delta_angle_acc s \<and>
   imu_delta_angle_acc_dt (notify_new_accel_raw_sample D e i accel sample_us fsync_set s) = imu_delta_angle_acc_dt s"
  using assms
  by (auto simp add: notify_new_accel_raw_sample_def Let_def emit_def log_accel_tap_def
      integrate_delta_velocity_effect update_accel_sensor_rate_def
      accel_raw_dropped_def accel_raw_dt_def accel_rate_now_def timestamped_def
      split: prod.splits)

lemma notify_delta_velocity_effect:
  assumes "\<not> has_been_killed s i" and "\<not> flt (accel_rate_now e i s) (Fin 40)"
  shows "imu_delta_velocity_acc (notify_new_delta_velocity D e i dvel s) =
     (imu_delta_velocity_acc s)(i :=
        vadd (if stale e (imu_accel_last_sample_us s i) then vzero else imu_delta_velocity_acc s i)
             (vscale (fst (rotate_and_correct_accel D e i
                        (vdiv dvel (fdiv (Fin 1) (accel_rate_now e i s))) s))
                (if stale e (imu_accel_last_sample_us s i) then Fin 0
                 else fdiv (Fin 1) (accel_rate_now e i s)))) \<and>
   imu_delta_velocity_acc_dt (notify_new_delta_velocity D e i dvel s) =
     (imu_delta_velocity_acc_dt s)(i :=
        fadd (if stale e (imu_accel_last_sample_us s i) then Fin 0 else imu_delta_velocity_acc_dt s i)
             (if stale e (imu_accel_last_sample_us s i) then Fin 0 else fdiv (Fin 1) (accel_rate_now e i s))) \<and>
   imu_delta_angle_acc (notify_new_delta_velocity D e i dvel s) = imu_delta_angle_acc s \<and>
   imu_delta_angle_acc_dt (notify_new_delta_velocity D e i dvel s) = imu_delta_angle_acc_dt s"
  using assms
  by (auto simp add: notify_new_delta_velocity_def Let_def emit_def log_accel_tap_def
      integrate_delta_velocity_effect update_accel_sensor_rate_def
      accel_rate_now_def rotate_and_correct_accel_def
      split: prod.splits)

text \<open>A killed instance or a dropped sample leaves the four accumulators alone.\<close>

lemma notify_gyro_raw_dropped:
  assumes "has_been_killed s i \<or> gyro_raw_dropped e i sample_us s"
  shows "imu_delta_angle_acc (notify_new_gyro_raw_sample D e i gyro sample_us s) = imu_delta_angle_acc s \<and>
   imu_delta_angle_acc_dt (notify_new_gyro_raw_sample D e i gyro sample_us s) = imu_delta_angle_acc_dt s \<and>
   imu_delta_velocity_acc (notify_new_gyro_raw_sample D e i gyro sample_us s) = imu_delta_velocity_acc s \<and>
   imu_delta_velocity_acc_dt (notify_new_gyro_raw_sample D e i gyro sample_us s) = imu_delta_velocity_acc_dt s"
  using assms
  by (auto simp add: notify_new_gyro_raw_sample_def Let_def update_gyro_sensor_rate_def
      gyro_raw_dropped_def gyro_rate_now_def timestamped_def split: prod.splits)

lemma notify_delta_angle_dropped:
  assumes "has_been_killed s i \<or> flt (gyro_rate_now e i s) (Fin 40)"
  shows "imu_delta_angle_acc (notify_new_delta_angle D e i dangle s) = imu_delta_angle_acc s \<and>
   imu_delta_angle_acc_dt (notify_new_delta_angle D e i dangle s) = imu_delta_angle_acc_dt s \<and>
   imu_delta_velocity_acc (notify_new_delta_angle D e i dangle s) = imu_delta_velocity_acc s \<and>
   imu_delta_velocity_acc_dt (notify_new_delta_angle D e i dangle s) = imu_delta_velocity_acc_dt s"
  using assms
  by (auto simp add: notify_new_delta_angle_def Let_def update_gyro_sensor_rate_def
      gyro_rate_now_def split: prod.splits)

lemma notify_accel_raw_dropped:
  assumes "has_been_killed s i \<or> accel_raw_dropped e i sample_us s"
  shows "imu_delta_angle_acc (notify_new_accel_raw_sample D e i accel sample_us fsync_set s) = imu_delta_angle_acc s \<and>
   imu_delta_angle_acc_dt (notify_new_accel_raw_sample D e i accel sample_us fsync_set s) = imu_delta_angle_acc_dt s \<and>
   imu_delta_velocity_acc (notify_new_accel_raw_sample D e i accel sample_us fsync_set s) = imu_delta_velocity_acc s \<and>
   imu_delta_velocity_acc_dt (notify_new_accel_raw_sample D e i accel sample_us fsync_set s) = imu_delta_velocity_acc_dt s"
  using assms
  by (auto simp add: notify_new_accel_raw_sample_def Let_def update_accel_sensor_rate_def
      accel_raw_dropped_def accel_rate_now_def timestamped_def split: prod.splits)

lemma notify_delta_velocity_dropped:
  assumes "has_been_killed s i \<or> flt (accel_rate_now e i s) (Fin 40)"
  shows "imu_delta_angle_acc (notify_new_delta_velocity D e i dvel s) = imu_delta_angle_acc s \<and>
   imu_delta_angle_acc_dt (notify_new_delta_velocity D e i dvel s) = imu_delta_angle_acc_dt s \<and>
   imu_delta_velocity_acc (notify_new_delta_velocity D e i dvel s) = imu_delta_velocity_acc s \<and>
   imu_delta_velocity_acc_dt (notify_new_delta_velocity D e i dvel s) = imu_delta_velocity_acc_dt s"
  using assms
  by (auto simp add: notify_new_delta_velocity_def Let_def update_accel_sensor_rate_def
      accel_rate_now_def split: prod.splits)

section \<open>The filter chain within a notification\<close>

text \<open>
  The filter chain depends on the state only through what it reads: two states that agree
  on the filters, the windows and the stored filtered value give the same result there.
\<close>

lemma save_gyro_window_cong:
  assumes "imu_post_filter_gyro_filter t = imu_post_filter_gyro_filter s"
    and "imu_gyro_window t = imu_gyro_window s"
    and "imu_last_gyro_for_fft t = imu_last_gyro_for_fft s"
  shows "imu_post_filter_gyro_filter (save_gyro_window D e i g p t) =
           imu_post_filter_gyro_filter (save_gyro_window D e i g p s) \<and>
         imu_gyro_window (save_gyro_window D e i g p t) = imu_gyro_window (save_gyro_window D e i g p s) \<and>
         imu_last_gyro_for_fft (save_gyro_window D e i g p t) =
           imu_last_gyro_for_fft (save_gyro_window D e i g p s)"
  using assms by (simp add: save_gyro_window_def Let_def)

lemma apply_notches_cong:
  assumes "imu_post_filter_gyro_filter t = imu_post_filter_gyro_filter s"
    and "imu_gyro_window t = imu_gyro_window s"
    and "imu_last_gyro_for_fft t = imu_last_gyro_for_fft s"
  shows "fst (apply_notches D e i ns g p t) = fst (apply_notches D e i ns g p s) \<and>
         fst (snd (apply_notches D e i ns g p t)) = fst (snd (apply_notches D e i ns g p s)) \<and>
         imu_post_filter_gyro_filter (snd (snd (snd (apply_notches D e i ns g p t)))) =
           imu_post_filter_gyro_filter (snd (snd (snd (apply_notches D e i ns g p s)))) \<and>
         imu_gyro_window (snd (snd (snd (apply_notches D e i ns g p t)))) =
           imu_gyro_window (snd (snd (snd (apply_notches D e i ns g p s)))) \<and>
         imu_last_gyro_for_fft (snd (snd (snd (apply_notches D e i ns g p t)))) =
           imu_last_gyro_for_fft (snd (snd (snd (apply_notches D e i ns g p s))))"
  using assms
proof (induction ns arbitrary: g p s t)
  case Nil
  then show ?case by simp
next
  case (Cons n ns)
  show ?case
  proof (cases "params_enabled n")
    case False
    then show ?thesis
      using Cons.IH [OF Cons.prems, of g p] by (simp add: case_prod_beta)
  next
    case True
    define r where "r = (if is_inactive n \<or> (\<not> EnableOnAllIMUs n \<and> i \<noteq> imu_primary e)
                 then (notch_reset D (filter n i), g)
                 else notch_apply D (filter n i) g)"
    define s1 where "s1 = save_gyro_window D e i (snd r) p s"
    define t1 where "t1 = save_gyro_window D e i (snd r) p t"
    have c: "imu_post_filter_gyro_filter t1 = imu_post_filter_gyro_filter s1"
      "imu_gyro_window t1 = imu_gyro_window s1"
      "imu_last_gyro_for_fft t1 = imu_last_gyro_for_fft s1"
      using save_gyro_window_cong [OF Cons.prems, of D e i "snd r" p] by (simp_all add: s1_def t1_def)
    have es: "apply_notches D e i (n # ns) g p s =
        (n\<lparr>filter := (filter n)(i := fst r)\<rparr> # fst (apply_notches D e i ns (snd r) (p + 1) s1),
         snd (apply_notches D e i ns (snd r) (p + 1) s1))"
      using True by (simp add: case_prod_beta Let_def r_def s1_def)
    have et: "apply_notches D e i (n # ns) g p t =
        (n\<lparr>filter := (filter n)(i := fst r)\<rparr> # fst (apply_notches D e i ns (snd r) (p + 1) t1),
         snd (apply_notches D e i ns (snd r) (p + 1) t1))"
      using True by (simp add: case_prod_beta Let_def r_def t1_def)
    show ?thesis
      unfolding es et using Cons.IH [OF c, of "snd r" "p + 1"] by simp
  qed
qed

lemma apply_gyro_filters_cong:
  assumes "filter_chain_state t = filter_chain_state s"
  shows "filter_chain_state (apply_gyro_filters D e i g t) =
         filter_chain_state (apply_gyro_filters D e i g s)"
proof -
  have a: "imu_harmonic_notches t = imu_harmonic_notches s" "imu_gyro_filter t = imu_gyro_filter s"
    "imu_post_filter_gyro_filter t = imu_post_filter_gyro_filter s"
    "imu_gyro_window t = imu_gyro_window s" "imu_last_gyro_for_fft t = imu_last_gyro_for_fft s"
    "imu_gyro_filtered t = imu_gyro_filtered s"
    using assms by (simp_all add: filter_chain_state_def)
  define s0 where "s0 = save_gyro_window D e i g 0 s"
  define t0 where "t0 = save_gyro_window D e i g 0 t"
  have n0: "imu_harmonic_notches s0 = imu_harmonic_notches s" "imu_harmonic_notches t0 = imu_harmonic_notches s"
    unfolding s0_def t0_def
    by (subst save_gyro_window_frame, simp add: a)+
  have c0: "imu_post_filter_gyro_filter t0 = imu_post_filter_gyro_filter s0"
      "imu_gyro_window t0 = imu_gyro_window s0"
      "imu_last_gyro_for_fft t0 = imu_last_gyro_for_fft s0"
    using save_gyro_window_cong [OF a(3,4,5), of D e i g 0] by (simp_all add: s0_def t0_def)
  obtain ns gf ph s1 where rs: "apply_notches D e i (imu_harmonic_notches s) g 1 s0 = (ns, gf, ph, s1)"
    by (metis prod_cases4)
  obtain ns' gf' ph' t1 where rt: "apply_notches D e i (imu_harmonic_notches s) g 1 t0 = (ns', gf', ph', t1)"
    by (metis prod_cases4)
  have eqs: "ns' = ns" "gf' = gf"
    "imu_post_filter_gyro_filter t1 = imu_post_filter_gyro_filter s1"
    "imu_gyro_window t1 = imu_gyro_window s1"
    "imu_last_gyro_for_fft t1 = imu_last_gyro_for_fft s1"
    using apply_notches_cong [OF c0, of D e i "imu_harmonic_notches s" g 1] by (simp_all add: rs rt)
  have "s1 = snd (snd (snd (apply_notches D e i (imu_harmonic_notches s) g 1 s0)))"
    by (simp add: rs)
  then have fs: "s1 = s\<lparr>imu_post_filter_gyro_filter := imu_post_filter_gyro_filter s1,
                   imu_gyro_window := imu_gyro_window s1,
                   imu_last_gyro_for_fft := imu_last_gyro_for_fft s1\<rparr>"
    using fft_frame_trans[OF save_gyro_window_frame[of D e i g 0 s, folded s0_def] apply_notches_frame] by simp
  have "t1 = snd (snd (snd (apply_notches D e i (imu_harmonic_notches s) g 1 t0)))"
    by (simp add: rt)
  then have ft0: "t1 = t\<lparr>imu_post_filter_gyro_filter := imu_post_filter_gyro_filter t1,
                   imu_gyro_window := imu_gyro_window t1,
                   imu_last_gyro_for_fft := imu_last_gyro_for_fft t1\<rparr>"
    using fft_frame_trans[OF save_gyro_window_frame[of D e i g 0 t, folded t0_def] apply_notches_frame] by simp
  have ft: "t1 = t\<lparr>imu_post_filter_gyro_filter := imu_post_filter_gyro_filter s1,
                   imu_gyro_window := imu_gyro_window s1,
                   imu_last_gyro_for_fft := imu_last_gyro_for_fft s1\<rparr>"
    using ft0 unfolding eqs(3,4,5) .
  obtain x y z where s1: "s1 = s\<lparr>imu_post_filter_gyro_filter := x, imu_gyro_window := y, imu_last_gyro_for_fft := z\<rparr>"
    and t1: "t1 = t\<lparr>imu_post_filter_gyro_filter := x, imu_gyro_window := y, imu_last_gyro_for_fft := z\<rparr>"
    using fs ft by blast
  show ?thesis
    unfolding apply_gyro_filters_def Let_def s0_def[symmetric] t0_def[symmetric] n0 a(1) rs rt eqs(1,2)
      prod.case s1 t1 emit_def filter_chain_state_def
    by (simp add: a)
qed

text \<open>The filter chain does not read what the notifications write before it runs.\<close>

lemma filter_chain_ignores:
  "filter_chain_state (apply_gyro_filters D e i g (s\<lparr>imu_delta_angle_acc := a1\<rparr>)) =
     filter_chain_state (apply_gyro_filters D e i g s)"
  "filter_chain_state (apply_gyro_filters D e i g (s\<lparr>imu_delta_angle_acc_dt := a2\<rparr>)) =
     filter_chain_state (apply_gyro_filters D e i g s)"
  "filter_chain_state (apply_gyro_filters D e i g (s\<lparr>imu_last_delta_angle := a3\<rparr>)) =
     filter_chain_state (apply_gyro_filters D e i g s)"
  "filter_chain_state (apply_gyro_filters D e i g (s\<lparr>imu_last_raw_gyro := a4\<rparr>)) =
     filter_chain_state (apply_gyro_filters D e i g s)"
  "filter_chain_state (apply_gyro_filters D e i g (s\<lparr>imu_gyro_last_sample_us := a5\<rparr>)) =
     filter_chain_state (apply_gyro_filters D e i g s)"
  "filter_chain_state (apply_gyro_filters D e i g (s\<lparr>imu_sample_gyro_count := a6\<rparr>)) =
     filter_chain_state (apply_gyro_filters D e i g s)"
  "filter_chain_state (apply_gyro_filters D e i g (s\<lparr>imu_sample_gyro_start_us := a7\<rparr>)) =
     filter_chain_state (apply_gyro_filters D e i g s)"
  "filter_chain_state (apply_gyro_filters D e i g (s\<lparr>imu_gyro_raw_sample_rates := a8\<rparr>)) =
     filter_chain_state (apply_gyro_filters D e i g s)"
  "filter_chain_state (apply_gyro_filters D e i g (s\<lparr>events := a9\<rparr>)) =
     filter_chain_state (apply_gyro_filters D e i g s)"
  by (rule apply_gyro_filters_cong, simp add: filter_chain_state_def)+

lemma filter_chain_outer:
  "filter_chain_state (update_primary e s) = filter_chain_state s"
  "filter_chain_state (emit ev s) = filter_chain_state s"
  "filter_chain_state (s\<lparr>imu_new_gyro_data := v\<rparr>) = filter_chain_state s"
  by (simp_all add: filter_chain_state_def update_primary_def emit_def Let_def)

lemma integrate_delta_angle_chain:
  "filter_chain_state (integrate_delta_angle D e i gyro dt da dc lst s) =
     filter_chain_state (apply_gyro_filters D e i gyro s)"
  by (simp add: integrate_delta_angle_def Let_def filter_chain_outer filter_chain_ignores)

lemma integrate_delta_angle_stamp:
  "imu_gyro_last_sample_us (integrate_delta_angle D e i gyro dt da dc lst s) = imu_gyro_last_sample_us s"
  by (simp add: integrate_delta_angle_def Let_def apply_gyro_filters_untouched)

lemma integrate_delta_velocity_stamp:
  "imu_accel_last_sample_us (integrate_delta_velocity D e i accel dt lst s) = imu_accel_last_sample_us s"
  by (simp add: integrate_delta_velocity_def Let_def emit_def)

lemma update_primary_stamp:
  "imu_gyro_last_sample_us (update_primary e s) = imu_gyro_last_sample_us s"
  by (simp add: update_primary_def Let_def emit_def)


lemma notify_delta_angle_processed:
  assumes "\<not> has_been_killed s i" and "\<not> flt (gyro_rate_now e i s) (Fin 40)"
  shows "imu_last_delta_angle (notify_new_delta_angle D e i dangle s) =
     (imu_last_delta_angle s)(i := if stale e (imu_gyro_last_sample_us s i) then vzero
        else vscale (delta_angle_gyro D e i dangle s) (delta_angle_dt e i s)) \<and>
   imu_last_raw_gyro (notify_new_delta_angle D e i dangle s) =
     (imu_last_raw_gyro s)(i := delta_angle_gyro D e i dangle s) \<and>
   imu_new_gyro_data (notify_new_delta_angle D e i dangle s) = (imu_new_gyro_data s)(i := True) \<and>
   imu_gyro_last_sample_us (notify_new_delta_angle D e i dangle s) =
     (imu_gyro_last_sample_us s)(i := hal_micros64_stamp e) \<and>
   filter_chain_state (notify_new_delta_angle D e i dangle s) =
     filter_chain_state (apply_gyro_filters D e i (delta_angle_gyro D e i dangle s) s)"
  using assms
  by (auto simp add: notify_new_delta_angle_def Let_def update_primary_untouched emit_def
      integrate_delta_angle_effect gyro_sample_taps_def update_gyro_sensor_rate_def
      gyro_rate_now_def rotate_and_correct_gyro_def delta_angle_gyro_def delta_angle_dt_def
      filter_chain_outer [unfolded emit_def] filter_chain_outer(1) integrate_delta_angle_chain
      filter_chain_ignores integrate_delta_angle_stamp update_primary_stamp
      split: prod.splits)

lemma notify_delta_velocity_processed:
  assumes "\<not> has_been_killed s i" and "\<not> flt (accel_rate_now e i s) (Fin 40)"
  shows "imu_accel_filtered (notify_new_delta_velocity D e i dvel s) =
     (imu_accel_filtered s)(i := snd (lpf_apply D (imu_accel_filter s i) (delta_velocity_accel D e i dvel s))) \<and>
   imu_new_accel_data (notify_new_delta_velocity D e i dvel s) = (imu_new_accel_data s)(i := True) \<and>
   imu_accel_last_sample_us (notify_new_delta_velocity D e i dvel s) =
     (imu_accel_last_sample_us s)(i := hal_micros64_stamp e)"
  using assms
  by (auto simp add: notify_new_delta_velocity_def Let_def emit_def log_accel_tap_def
      integrate_delta_velocity_effect integrate_delta_velocity_stamp update_accel_sensor_rate_def
      accel_rate_now_def rotate_and_correct_accel_def delta_velocity_accel_def delta_velocity_dt_def
      split: prod.splits)

section \<open>Rate estimator: properties\<close>

text \<open>
  C10. A FIFO-reset notification sets the sample count and the window start time of its
  instance to zero and nothing else: putting the two timing arrays back gives the state
  before the call, so the rate estimate, the accumulators, the published values and the
  filters are as they were. The next rate update of that instance only records the clock
  as the new window start; count and rate estimate stay as the reset left them.
\<close>

theorem fifo_reset_restarts_window:
  "notify_gyro_fifo_reset i s =
     s\<lparr>imu_sample_gyro_count := (imu_sample_gyro_count s)(i := 0),
       imu_sample_gyro_start_us := (imu_sample_gyro_start_us s)(i := 0)\<rparr> \<and>
   notify_accel_fifo_reset i s =
     s\<lparr>imu_sample_accel_count := (imu_sample_accel_count s)(i := 0),
       imu_sample_accel_start_us := (imu_sample_accel_start_us s)(i := 0)\<rparr> \<and>
   (notify_gyro_fifo_reset i s)\<lparr>imu_sample_gyro_count := imu_sample_gyro_count s,
       imu_sample_gyro_start_us := imu_sample_gyro_start_us s\<rparr> = s \<and>
   (notify_accel_fifo_reset i s)\<lparr>imu_sample_accel_count := imu_sample_accel_count s,
       imu_sample_accel_start_us := imu_sample_accel_start_us s\<rparr> = s \<and>
   update_gyro_sensor_rate e i (notify_gyro_fifo_reset i s) =
     s\<lparr>imu_sample_gyro_count := (imu_sample_gyro_count s)(i := 0),
       imu_sample_gyro_start_us := (imu_sample_gyro_start_us s)(i := hal_micros e)\<rparr> \<and>
   update_accel_sensor_rate e i (notify_accel_fifo_reset i s) =
     s\<lparr>imu_sample_accel_count := (imu_sample_accel_count s)(i := 0),
       imu_sample_accel_start_us := (imu_sample_accel_start_us s)(i := hal_micros e)\<rparr>"
  by (simp add: notify_gyro_fifo_reset_def notify_accel_fifo_reset_def
      update_gyro_sensor_rate_def update_accel_sensor_rate_def update_sensor_rate_def)

text \<open>
  C4. The rate update, case by case. With a zero window start it records the clock as the
  start (the count is set to zero, the rate is untouched). Otherwise it increments the
  count; if the elapsed window is more than 1,000,000 microseconds it computes the
  observed rate \<open>count * 1e6 / elapsed\<close>, clamps it between \<open>rate * 0.95\<close> and
  \<open>rate * 1.05\<close> (\<open>rate * 0.5\<close> and \<open>rate * 2\<close> while the sensors are converging), sets
  the rate to \<open>c * rate + (1 - c) * observed\<close> with \<open>c = 0.98\<close> (\<open>0.8\<close> while converging),
  and restarts the window with count zero at the current clock.
\<close>

theorem update_sensor_rate_cases:
  "update_sensor_rate e (count, window_start_us, rate_hz) =
     (if window_start_us = 0 then (0, hal_micros e, rate_hz)
      else if hal_micros e - window_start_us > 1000000 then
        (0, hal_micros e,
         fadd (fmul (if sensors_converging e then Fin (8 / 10) else Fin (98 / 100)) rate_hz)
              (fmul (fsub (Fin 1) (if sensors_converging e then Fin (8 / 10) else Fin (98 / 100)))
                 (constrain_float
                    (fdiv (fmul (f32_of_nat (unat (count + 1))) (Fin 1000000))
                          (f32_of_nat (unat (hal_micros e - window_start_us))))
                    (fmul rate_hz (if sensors_converging e then Fin (5 / 10) else Fin (95 / 100)))
                    (fmul rate_hz (if sensors_converging e then Fin 2 else Fin (105 / 100))))))
      else (count + 1, window_start_us, rate_hz))"
  by (simp add: update_sensor_rate_def Let_def)

text \<open>
  A window of two seconds with 1000 samples at an estimate of 1 kHz: the observed 500 Hz is
  clamped to 950 Hz, or to 500 Hz while converging.
\<close>

theorem update_sensor_rate_cases_witness:
  "update_sensor_rate env0 (999, 3000000, Fin 1000) = (0, 5000000, Fin 999) \<and>
   update_sensor_rate (env0\<lparr>hal_millis64 := 1000\<rparr>) (999, 3000000, Fin 1000) = (0, 5000000, Fin 900) \<and>
   update_sensor_rate env0 (7, 0, Fin 1000) = (0, 5000000, Fin 1000) \<and>
   update_sensor_rate env0 (7, 4500000, Fin 1000) = (8, 4500000, Fin 1000)"
  using update_sensor_rate_cases [of env0 999 3000000 "Fin 1000"]
    update_sensor_rate_cases [of "env0\<lparr>hal_millis64 := 1000\<rparr>" 999 3000000 "Fin 1000"]
    update_sensor_rate_cases [of env0 7 0 "Fin 1000"]
    update_sensor_rate_cases [of env0 7 4500000 "Fin 1000"]
  by (simp add: env0_fields sensors_converging_def f32_of_nat_def constrain_float_def fsub_def fgt_def)

text \<open>
  Whenever the window start is zero the count is zero: the rate update keeps that, and
  the FIFO reset establishes it. So the first branch of the rate update, which writes
  count zero, changes the start time only.
\<close>

lemma update_sensor_rate_zero_start:
  assumes "window_start_us = 0 \<longrightarrow> count = 0"
  shows "(fst (snd (update_sensor_rate e (count, window_start_us, rate_hz))) = 0 \<longrightarrow>
            fst (update_sensor_rate e (count, window_start_us, rate_hz)) = 0) \<and>
         (window_start_us = 0 \<longrightarrow>
            update_sensor_rate e (count, window_start_us, rate_hz) = (count, hal_micros e, rate_hz))"
  using assms by (simp add: update_sensor_rate_def Let_def)

section \<open>Publish gate: properties\<close>

text \<open>
  C5. Publishing on an instance that has not been killed moves the accumulated delta and
  its accumulated time into the visible fields, sets the valid flag, and leaves both the
  delta accumulator and its time accumulator at zero; for the gyro and for the accel.
\<close>

theorem publish_moves_accumulator:
  "\<not> has_been_killed s i \<Longrightarrow>
     imu_delta_angle (publish_gyro i gyro s) i = imu_delta_angle_acc s i \<and>
     imu_delta_angle_dt (publish_gyro i gyro s) i = imu_delta_angle_acc_dt s i \<and>
     imu_delta_angle_valid (publish_gyro i gyro s) i \<and>
     imu_delta_angle_acc (publish_gyro i gyro s) i = vzero \<and>
     imu_delta_angle_acc_dt (publish_gyro i gyro s) i = Fin 0 \<and>
     imu_delta_velocity (publish_accel D e i accel s) i = imu_delta_velocity_acc s i \<and>
     imu_delta_velocity_dt (publish_accel D e i accel s) i = imu_delta_velocity_acc_dt s i \<and>
     imu_delta_velocity_valid (publish_accel D e i accel s) i \<and>
     imu_delta_velocity_acc (publish_accel D e i accel s) i = vzero \<and>
     imu_delta_velocity_acc_dt (publish_accel D e i accel s) i = Fin 0"
  by (simp add: publish_gyro_def publish_accel_def Let_def emit_def)

theorem publish_moves_accumulator_witness:
  "\<not> has_been_killed state1 0 \<and>
   imu_delta_angle (publish_gyro 0 vzero state1) 0 = Vector3f (Fin 1) (Fin 2) (Fin 3) \<and>
   imu_delta_angle_dt (publish_gyro 0 vzero state1) 0 = Fin (1 / 100) \<and>
   imu_delta_angle_acc_dt (publish_gyro 0 vzero state1) 0 = Fin 0 \<and>
   imu_delta_velocity (publish_accel passthrough env0 0 vzero state1) 0 = Vector3f (Fin 4) (Fin 5) (Fin 6) \<and>
   imu_delta_velocity_dt (publish_accel passthrough env0 0 vzero state1) 0 = Fin (2 / 100)"
  using publish_moves_accumulator [of state1 0 vzero passthrough env0 vzero]
  by (simp add: has_been_killed_def state1_fields)

section \<open>Dropped samples\<close>

text \<open>
  C7, as the code has it. A delta-angle or delta-velocity notification whose rate
  estimate, as the call reads it after its own rate update, is below 40 Hz is dropped: the call returns the state that
  the rate update left (or the unchanged state on a killed instance). Putting the three
  timing arrays of the rate estimator back gives the state before the call, so nothing
  was accumulated or filtered, the last-sample time, the error counters and the trace
  (no log, no hook, no notification) are untouched.
\<close>

theorem low_rate_delta_is_dropped:
  "(flt (gyro_rate_now e i s) (Fin 40) \<longrightarrow>
      notify_new_delta_angle D e i dangle s =
        (if has_been_killed s i then s else update_gyro_sensor_rate e i s) \<and>
      (notify_new_delta_angle D e i dangle s)
        \<lparr>imu_sample_gyro_count := imu_sample_gyro_count s,
         imu_sample_gyro_start_us := imu_sample_gyro_start_us s,
         imu_gyro_raw_sample_rates := imu_gyro_raw_sample_rates s\<rparr> = s) \<and>
   (flt (accel_rate_now e i s) (Fin 40) \<longrightarrow>
      notify_new_delta_velocity D e i dvel s =
        (if has_been_killed s i then s else update_accel_sensor_rate e i s) \<and>
      (notify_new_delta_velocity D e i dvel s)
        \<lparr>imu_sample_accel_count := imu_sample_accel_count s,
         imu_sample_accel_start_us := imu_sample_accel_start_us s,
         imu_accel_raw_sample_rates := imu_accel_raw_sample_rates s\<rparr> = s)"
  by (simp add: notify_new_delta_angle_def notify_new_delta_velocity_def gyro_rate_now_def
      accel_rate_now_def Let_def update_gyro_sensor_rate_def update_accel_sensor_rate_def
      split: prod.splits)

theorem low_rate_delta_is_dropped_witness:
  "flt (gyro_rate_now env0 0 state_slow) (Fin 40) \<and>
   flt (accel_rate_now env0 0 state_slow) (Fin 40) \<and>
   notify_new_delta_angle passthrough env0 0 (Vector3f (Fin 1) (Fin 0) (Fin 0)) state_slow =
     update_gyro_sensor_rate env0 0 state_slow \<and>
   notify_new_delta_velocity passthrough env0 0 (Vector3f (Fin 1) (Fin 0) (Fin 0)) state_slow =
     update_accel_sensor_rate env0 0 state_slow \<and>
   imu_delta_angle_acc_dt
     (notify_new_delta_angle passthrough env0 0 (Vector3f (Fin 1) (Fin 0) (Fin 0)) state_slow) 0 = Fin 0 \<and>
   imu_gyro_last_sample_us
     (notify_new_delta_angle passthrough env0 0 (Vector3f (Fin 1) (Fin 0) (Fin 0)) state_slow) 0 = 0 \<and>
   events (notify_new_delta_angle passthrough env0 0 (Vector3f (Fin 1) (Fin 0) (Fin 0)) state_slow) = []"
proof -
  have g: "flt (gyro_rate_now env0 0 state_slow) (Fin 40)"
    by (simp add: gyro_rate_now_def update_gyro_sensor_rate_def update_sensor_rate_def
        state_slow_fields env0_fields)
  have a: "flt (accel_rate_now env0 0 state_slow) (Fin 40)"
    by (simp add: accel_rate_now_def update_accel_sensor_rate_def update_sensor_rate_def
        state_slow_fields env0_fields)
  show ?thesis
    using g a low_rate_delta_is_dropped [of env0 0 state_slow passthrough
        "Vector3f (Fin 1) (Fin 0) (Fin 0)" "Vector3f (Fin 1) (Fin 0) (Fin 0)"]
    by (simp add: has_been_killed_def state_slow_fields update_gyro_sensor_rate_def
        update_sensor_rate_def)
qed

text \<open>
  Unless this call completes an observation window, the rate a notification tests is the
  estimate the instance had before the call.
\<close>

lemma rate_now_unchanged:
  "imu_sample_gyro_start_us s i = 0 \<or> \<not> hal_micros e - imu_sample_gyro_start_us s i > 1000000
     \<Longrightarrow> gyro_rate_now e i s = imu_gyro_raw_sample_rates s i"
  "imu_sample_accel_start_us s i = 0 \<or> \<not> hal_micros e - imu_sample_accel_start_us s i > 1000000
     \<Longrightarrow> accel_rate_now e i s = imu_accel_raw_sample_rates s i"
  by (auto simp add: gyro_rate_now_def accel_rate_now_def update_gyro_sensor_rate_def
      update_accel_sensor_rate_def update_sensor_rate_def Let_def)

text \<open>
  The claim as stated, read with the estimate the instance has before the call, fails.
  With an estimate of 39 Hz, while the sensors are converging, a notification that closes
  a two-second window of 1000 samples first raises the estimate to
  \<open>0.8 * 39 + 0.2 * 78 = 46.8\<close> Hz and then accepts the sample: the accumulated time, the
  last-sample time and the new-data flag all change.
\<close>

theorem low_rate_before_update_counterexample:
  "\<not> has_been_killed state_39 0 \<and>
   flt (imu_gyro_raw_sample_rates state_39 0) (Fin 40) \<and>
   gyro_rate_now env_converging 0 state_39 = Fin (234 / 5) \<and>
   imu_delta_angle_acc_dt state_39 0 = Fin 0 \<and>
   imu_delta_angle_acc_dt
     (notify_new_delta_angle passthrough env_converging 0 (Vector3f (Fin 1) (Fin 0) (Fin 0)) state_39) 0
     = Fin (5 / 234) \<and>
   imu_gyro_last_sample_us state_39 0 = 4999000 \<and>
   imu_gyro_last_sample_us
     (notify_new_delta_angle passthrough env_converging 0 (Vector3f (Fin 1) (Fin 0) (Fin 0)) state_39) 0
     = 5000000 \<and>
   \<not> imu_new_gyro_data state_39 0 \<and>
   imu_new_gyro_data
     (notify_new_delta_angle passthrough env_converging 0 (Vector3f (Fin 1) (Fin 0) (Fin 0)) state_39) 0 \<and>
   flt (imu_accel_raw_sample_rates state_39 0) (Fin 40) \<and>
   accel_rate_now env_converging 0 state_39 = Fin (234 / 5) \<and>
   imu_delta_velocity_acc_dt state_39 0 = Fin 0 \<and>
   imu_delta_velocity_acc_dt
     (notify_new_delta_velocity passthrough env_converging 0 (Vector3f (Fin 1) (Fin 0) (Fin 0)) state_39) 0
     = Fin (5 / 234) \<and>
   imu_accel_last_sample_us
     (notify_new_delta_velocity passthrough env_converging 0 (Vector3f (Fin 1) (Fin 0) (Fin 0)) state_39) 0
     = 5000000 \<and>
   imu_new_accel_data
     (notify_new_delta_velocity passthrough env_converging 0 (Vector3f (Fin 1) (Fin 0) (Fin 0)) state_39) 0"
proof -
  have k: "\<not> has_been_killed state_39 0"
    by (simp add: has_been_killed_def state_39_fields)
  have rg: "gyro_rate_now env_converging 0 state_39 = Fin (234 / 5)"
    by (simp add: gyro_rate_now_def update_gyro_sensor_rate_def update_sensor_rate_def Let_def
        sensors_converging_def constrain_float_def fgt_def fsub_def f32_of_nat_def
        state_39_fields env_converging_fields)
  have ra: "accel_rate_now env_converging 0 state_39 = Fin (234 / 5)"
    by (simp add: accel_rate_now_def update_accel_sensor_rate_def update_sensor_rate_def Let_def
        sensors_converging_def constrain_float_def fgt_def fsub_def f32_of_nat_def
        state_39_fields env_converging_fields)
  have ng: "\<not> flt (gyro_rate_now env_converging 0 state_39) (Fin 40)"
    and na: "\<not> flt (accel_rate_now env_converging 0 state_39) (Fin 40)"
    by (simp_all add: rg ra)
  have st: "\<not> stale env_converging (imu_gyro_last_sample_us state_39 0)"
    "\<not> stale env_converging (imu_accel_last_sample_us state_39 0)"
    by (simp_all add: stale_def state_39_fields env_converging_fields)
  show ?thesis
    using k rg ra st
    by (simp add: notify_delta_angle_effect [OF k ng] notify_delta_angle_processed [OF k ng]
        notify_delta_velocity_effect [OF k na] notify_delta_velocity_processed [OF k na]
        state_39_fields env_converging_fields)
qed

section \<open>Primary selector: properties\<close>

text \<open>
  C8. Reconciling the primary state notifies (\<^verbatim>\<open>set_primary\<close>, recorded in the trace) and
  stores the new primary state and the time stamp exactly when the computed primary
  boolean differs from the stored one or more than 200 ms have passed on the 32-bit
  microsecond clock since the stored time stamp; otherwise the state, and with it the
  trace, is unchanged. Hence any number of calls during which the primary is unchanged
  and the timeout has not passed leave the state as it was: no further notification.
\<close>

theorem update_primary_notifies:
  "update_primary e s =
     (if is_primary s \<noteq> (gyro_instance s = imu_primary e)
         \<or> hal_micros_primary e - last_primary_update_us s > 200000
      then s\<lparr>events := events s @ [Set_primary (gyro_instance s = imu_primary e)],
             is_primary := (gyro_instance s = imu_primary e),
             last_primary_update_us := hal_micros_primary e\<rparr>
      else s) \<and>
   (list_all (primary_unchanged s) es \<longrightarrow> update_primary_all es s = s)"
proof -
  have one: "\<And>e. primary_unchanged s e \<Longrightarrow> update_primary e s = s"
    by (simp add: update_primary_def primary_unchanged_def timeout_expired_def
        PRIMARY_UPDATE_TIMEOUT_US_def Let_def)
  have "list_all (primary_unchanged s) es \<Longrightarrow> update_primary_all es s = s"
    by (induction es) (simp_all add: one)
  then show ?thesis
    by (simp add: update_primary_def timeout_expired_def PRIMARY_UPDATE_TIMEOUT_US_def Let_def emit_def)
qed

theorem update_primary_notifies_witness:
  "list_all (primary_unchanged state0) [env0, env0\<lparr>hal_micros_primary := 5100000\<rparr>] \<and>
   update_primary_all [env0, env0\<lparr>hal_micros_primary := 5100000\<rparr>] state0 = state0 \<and>
   events (update_primary (env0\<lparr>hal_micros_primary := 5200001\<rparr>) state0) = [Set_primary True] \<and>
   events (update_primary (env0\<lparr>imu_primary := 1\<rparr>) state0) = [Set_primary False] \<and>
   events (update_primary (env0\<lparr>hal_micros_primary := 5200000\<rparr>) state0) = []"
proof -
  have q: "list_all (primary_unchanged state0) [env0, env0\<lparr>hal_micros_primary := 5100000\<rparr>]"
    by (simp add: primary_unchanged_def state0_fields env0_fields)
  have r: "update_primary_all [env0, env0\<lparr>hal_micros_primary := 5100000\<rparr>] state0 = state0"
    using q update_primary_notifies [of env0 state0 "[env0, env0\<lparr>hal_micros_primary := 5100000\<rparr>]"]
    by blast
  have e1: "events (update_primary (env0\<lparr>hal_micros_primary := 5200001\<rparr>) state0) = [Set_primary True]"
    using update_primary_notifies [of "env0\<lparr>hal_micros_primary := 5200001\<rparr>" state0 "[]"]
    by (simp add: state0_fields env0_fields)
  have e2: "events (update_primary (env0\<lparr>imu_primary := 1\<rparr>) state0) = [Set_primary False]"
    using update_primary_notifies [of "env0\<lparr>imu_primary := 1\<rparr>" state0 "[]"]
    by (simp add: state0_fields env0_fields)
  have e3: "events (update_primary (env0\<lparr>hal_micros_primary := 5200000\<rparr>) state0) = []"
    using update_primary_notifies [of "env0\<lparr>hal_micros_primary := 5200000\<rparr>" state0 "[]"]
    by (simp add: state0_fields env0_fields)
  show ?thesis
    using q r e1 e2 e3 by blast
qed

section \<open>Delta integrator: properties\<close>

lemma fmul_commute: "fmul a b = fmul b a"
  by (cases a; cases b) (simp_all add: mult.commute)

lemma fmul_sixth: "fmul a (fdiv (Fin 1) (Fin 6)) = fdiv a (Fin 6)"
  by (cases a) (simp_all add: inf_of_def)

text \<open>The coning correction of the code is the coning term of the specification.\<close>

lemma coning_correction_spec:
  "coning_correction s i delta_angle =
     spec_coning (imu_delta_angle_acc s i) (imu_last_delta_angle s i) delta_angle"
  by (simp add: coning_correction_def spec_coning_def smul_def vscale_def vdiv_def Let_def
      fmul_sixth fmul_commute [of _ "Fin (1 / 2)"] del: fdiv.simps)




text \<open>
  C3, as the code has it. For an accepted raw gyro sample that is not stale, the amount
  added to the delta-angle accumulator is the trapezoidal delta
  \<open>(gyro + previous_raw) * 0.5 * dt\<close> plus the coning term
  \<open>0.5 * ((accumulated + previous_delta / 6) \<times> delta)\<close>. An accepted raw accel sample adds
  \<open>accel * dt\<close> only, with no averaging and no coning term, where a stale sample has its
  accumulator zeroed and its dt replaced by zero first.
\<close>

theorem fresh_sample_delta_formulas:
  "\<not> has_been_killed s i \<Longrightarrow>
   (\<not> gyro_raw_dropped e i sample_us s \<and> \<not> stale e (imu_gyro_last_sample_us s i) \<longrightarrow>
      imu_delta_angle_acc (notify_new_gyro_raw_sample D e i gyro sample_us s) i =
        vadd (imu_delta_angle_acc s i)
          (vadd (spec_trapezoid gyro (imu_last_raw_gyro s i) (gyro_raw_dt e i sample_us s))
                (spec_coning (imu_delta_angle_acc s i) (imu_last_delta_angle s i)
                   (spec_trapezoid gyro (imu_last_raw_gyro s i) (gyro_raw_dt e i sample_us s))))) \<and>
   (\<not> accel_raw_dropped e i sample_us' s \<longrightarrow>
      imu_delta_velocity_acc (notify_new_accel_raw_sample D e i accel sample_us' fsync_set s) i =
        vadd (if stale e (imu_accel_last_sample_us s i) then vzero else imu_delta_velocity_acc s i)
          (vscale accel (if stale e (imu_accel_last_sample_us s i) then Fin 0
                         else accel_raw_dt e i sample_us' s)))"
  by (simp add: notify_gyro_raw_effect notify_accel_raw_effect coning_correction_spec
      spec_trapezoid_def)

theorem fresh_sample_delta_formulas_witness:
  "\<not> has_been_killed state_gap 0 \<and>
   \<not> gyro_raw_dropped env_next 0 4801000 state_gap \<and>
   \<not> stale env_next (imu_gyro_last_sample_us state_gap 0) \<and>
   gyro_raw_dt env_next 0 4801000 state_gap = Fin (1 / 1000) \<and>
   imu_delta_angle_acc
     (notify_new_gyro_raw_sample passthrough env_next 0 (Vector3f (Fin 0) (Fin 1) (Fin 0)) 4801000 state_gap) 0
     = Vector3f (Fin 1) (Fin (1 / 2000)) (Fin (1 / 4000)) \<and>
   \<not> accel_raw_dropped env_next 0 0 state_gap \<and>
   imu_delta_velocity_acc
     (notify_new_accel_raw_sample passthrough env_next 0 (Vector3f (Fin 0) (Fin 0) (Fin 10)) 0 False state_gap) 0
     = Vector3f (Fin 0) (Fin 0) (Fin (101 / 100))"
proof -
  have g: "\<not> gyro_raw_dropped env_next 0 4801000 state_gap"
    by (simp add: gyro_raw_dropped_def timestamped_def state_gap_fields)
  have a: "\<not> accel_raw_dropped env_next 0 0 state_gap"
    by (simp add: accel_raw_dropped_def gap_facts)
  have dt: "gyro_raw_dt env_next 0 4801000 state_gap = Fin (1 / 1000)"
    "accel_raw_dt env_next 0 0 state_gap = Fin (1 / 1000)"
    by (simp_all add: gyro_raw_dt_def accel_raw_dt_def timestamped_def state_gap_fields f32_of_nat_def gap_facts)
  show ?thesis
    using g a dt gap_facts(1,8,9)
      fresh_sample_delta_formulas [of state_gap 0 env_next 4801000 passthrough
        "Vector3f (Fin 0) (Fin 1) (Fin 0)" 0 "Vector3f (Fin 0) (Fin 0) (Fin 10)" False]
    by (simp add: state_gap_fields vec_ops)
qed

text \<open>
  The claim as stated fails on a stale sample: with an accumulated delta angle of
  \<open>(1, 0, 0)\<close>, a sample \<open>(0, 1, 0)\<close> stamped 200 ms after the previous one leaves the
  accumulator at \<open>(0, 0, 1/20)\<close>: the trapezoidal delta \<open>(0, 1/10, 0)\<close> was zeroed, and
  what was added is the coning term alone, computed from the accumulator as it was before
  the reset. That is neither trapezoid plus coning, nor what the formulas give with a zero
  time step.
\<close>

theorem stale_gyro_sample_counterexample:
  "\<not> has_been_killed state_gap 0 \<and>
   \<not> gyro_raw_dropped env0 0 5000000 state_gap \<and>
   gyro_raw_dt env0 0 5000000 state_gap = Fin (1 / 5) \<and>
   imu_delta_angle_acc
     (notify_new_gyro_raw_sample passthrough env0 0 (Vector3f (Fin 0) (Fin 1) (Fin 0)) 5000000 state_gap) 0
     = Vector3f (Fin 0) (Fin 0) (Fin (1 / 20)) \<and>
   vadd (spec_trapezoid (Vector3f (Fin 0) (Fin 1) (Fin 0)) (imu_last_raw_gyro state_gap 0) (Fin (1 / 5)))
        (spec_coning (imu_delta_angle_acc state_gap 0) (imu_last_delta_angle state_gap 0)
           (spec_trapezoid (Vector3f (Fin 0) (Fin 1) (Fin 0)) (imu_last_raw_gyro state_gap 0) (Fin (1 / 5))))
     = Vector3f (Fin 0) (Fin (1 / 10)) (Fin (1 / 20)) \<and>
   imu_delta_angle_acc
     (notify_new_gyro_raw_sample passthrough env0 0 (Vector3f (Fin 0) (Fin 1) (Fin 0)) 5000000 state_gap) 0
     \<noteq> vadd vzero (Vector3f (Fin 0) (Fin (1 / 10)) (Fin (1 / 20))) \<and>
   imu_delta_angle_acc
     (notify_new_gyro_raw_sample passthrough env0 0 (Vector3f (Fin 0) (Fin 1) (Fin 0)) 5000000 state_gap) 0
     \<noteq> vadd (imu_delta_angle_acc state_gap 0) (Vector3f (Fin 0) (Fin (1 / 10)) (Fin (1 / 20))) \<and>
   vadd (spec_trapezoid (Vector3f (Fin 0) (Fin 1) (Fin 0)) (imu_last_raw_gyro state_gap 0) (Fin 0))
        (spec_coning vzero (imu_last_delta_angle state_gap 0)
           (spec_trapezoid (Vector3f (Fin 0) (Fin 1) (Fin 0)) (imu_last_raw_gyro state_gap 0) (Fin 0)))
     = vzero \<and>
   imu_delta_angle_acc
     (notify_new_gyro_raw_sample passthrough env0 0 (Vector3f (Fin 0) (Fin 1) (Fin 0)) 5000000 state_gap) 0
     \<noteq> vadd vzero vzero"
proof -
  have g: "\<not> gyro_raw_dropped env0 0 5000000 state_gap"
    by (simp add: gyro_raw_dropped_def timestamped_def state_gap_fields)
  have dt: "gyro_raw_dt env0 0 5000000 state_gap = Fin (1 / 5)"
    by (simp add: gyro_raw_dt_def timestamped_def state_gap_fields f32_of_nat_def)
  show ?thesis
    using g dt
    by (simp add: notify_gyro_raw_effect gap_facts coning_correction_spec state_gap_fields vec_ops
        stale_def env0_fields)
qed

section \<open>Filter chain: non-finite output\<close>

text \<open>
  The gyro path does keep the old value: if the stored filtered values are finite, they
  stay finite through the filter chain, whatever the filters return, hence through every
  run of calls, and so does what \<^verbatim>\<open>update_gyro\<close> publishes.
\<close>

lemma apply_gyro_filters_filtered:
  assumes "finite3 (imu_gyro_filtered s j)" and "finite3 (imu_gyro_filtered s i)"
  shows "finite3 (imu_gyro_filtered (apply_gyro_filters D e i g s) j)"
proof -
  define s0 where "s0 = save_gyro_window D e i g 0 s"
  obtain ns gf ph s1 where r: "apply_notches D e i (imu_harmonic_notches s0) g 1 s0 = (ns, gf, ph, s1)"
    by (metis prod_cases4)
  have "s1 = snd (snd (snd (apply_notches D e i (imu_harmonic_notches s0) g 1 s0)))"
    by (simp add: r)
  then have f1: "s1 = s\<lparr>imu_post_filter_gyro_filter := imu_post_filter_gyro_filter s1,
                   imu_gyro_window := imu_gyro_window s1,
                   imu_last_gyro_for_fft := imu_last_gyro_for_fft s1\<rparr>"
    using fft_frame_trans[OF save_gyro_window_frame[of D e i g 0 s, folded s0_def] apply_notches_frame] by simp
  obtain a b c where s1: "s1 = s\<lparr>imu_post_filter_gyro_filter := a, imu_gyro_window := b, imu_last_gyro_for_fft := c\<rparr>"
    using f1 by blast
  show ?thesis
    using assms
    unfolding apply_gyro_filters_def Let_def s0_def[symmetric] r prod.case s1 emit_def finite3_def
    by simp
qed

lemma integrate_delta_angle_filtered:
  assumes "\<And>j. finite3 (imu_gyro_filtered s j)"
  shows "finite3 (imu_gyro_filtered (integrate_delta_angle D e i gyro dt da dc lst s) j)"
  using assms by (simp add: integrate_delta_angle_def Let_def apply_gyro_filters_filtered)

lemma notify_gyro_raw_filtered:
  assumes "\<And>j. finite3 (imu_gyro_filtered s j)"
  shows "finite3 (imu_gyro_filtered (notify_new_gyro_raw_sample D e i gyro sample_us s) j)"
  using assms
  by (simp add: notify_new_gyro_raw_sample_def Let_def update_primary_untouched emit_def
      integrate_delta_angle_filtered gyro_sample_taps_def update_gyro_sensor_rate_def
      split: prod.splits)

lemma notify_delta_angle_filtered:
  assumes "\<And>j. finite3 (imu_gyro_filtered s j)"
  shows "finite3 (imu_gyro_filtered (notify_new_delta_angle D e i dangle s) j)"
  using assms
  by (simp add: notify_new_delta_angle_def Let_def update_primary_untouched emit_def
      integrate_delta_angle_filtered gyro_sample_taps_def update_gyro_sensor_rate_def
      rotate_and_correct_gyro_def split: prod.splits)

lemma integrate_delta_velocity_gyro_filtered:
  "imu_gyro_filtered (integrate_delta_velocity D e i accel dt lst s) = imu_gyro_filtered s"
  by (simp add: integrate_delta_velocity_def Let_def emit_def)

lemma notify_accel_raw_gyro_filtered:
  "imu_gyro_filtered (notify_new_accel_raw_sample D e i accel sample_us fs s) = imu_gyro_filtered s"
  by (simp add: notify_new_accel_raw_sample_def Let_def emit_def log_accel_tap_def
      integrate_delta_velocity_gyro_filtered update_accel_sensor_rate_def split: prod.splits)

lemma notify_delta_velocity_gyro_filtered:
  "imu_gyro_filtered (notify_new_delta_velocity D e i dvel s) = imu_gyro_filtered s"
  by (simp add: notify_new_delta_velocity_def Let_def emit_def log_accel_tap_def
      integrate_delta_velocity_gyro_filtered update_accel_sensor_rate_def
      rotate_and_correct_accel_def split: prod.splits)

lemma step_filtered:
  assumes f: "\<And>j. finite3 (imu_gyro_filtered s j)"
  shows "finite3 (imu_gyro_filtered (step D c s) j)"
proof (cases c)
  case (Notify_new_gyro_raw_sample e i gyro sample_us)
  then show ?thesis using f by (simp add: notify_gyro_raw_filtered)
next
  case (Notify_new_delta_angle e i dangle)
  then show ?thesis using f by (simp add: notify_delta_angle_filtered)
next
  case (Notify_new_accel_raw_sample e i accel sample_us fs)
  then show ?thesis using f by (simp add: notify_accel_raw_gyro_filtered)
next
  case (Notify_new_delta_velocity e i dvel)
  then show ?thesis using f by (simp add: notify_delta_velocity_gyro_filtered)
qed (use f in \<open>simp_all add: notify_accel_fifo_reset_def notify_gyro_fifo_reset_def
      set_accel_oversampling_def set_gyro_oversampling_def publish_gyro_def publish_accel_def
      publish_temperature_def inc_accel_error_count_def inc_gyro_error_count_def update_gyro_def
      update_accel_def update_gyro_filters_def update_accel_filters_def update_primary_untouched
      Let_def emit_def\<close>)

lemma gyro_filtered_stays_finite:
  assumes "\<And>j. finite3 (imu_gyro_filtered s j)"
  shows "finite3 (imu_gyro_filtered (run D cs s) j)"
  using assms by (induction cs arbitrary: s j) (simp_all add: step_filtered)

lemma published_gyro_is_finite:
  assumes "\<And>j. finite3 (imu_gyro_filtered s j)" and "imu_new_gyro_data (run D cs s) i"
    and "\<not> has_been_killed s i"
  shows "finite3 (imu_gyro (update_gyro D e i (run D cs s)) i)"
  using gyro_filtered_stays_finite [OF assms(1), of D cs i] assms(2,3)
  by (simp add: update_gyro_def publish_gyro_def update_gyro_filters_def Let_def
      has_been_killed_def run_killed)

lemma state0_live: "\<not> has_been_killed state0 0"
  by (simp add: has_been_killed_def state0_fields)

text \<open>
  C2 on the accel path. An accel sample with an infinite component, through a low-pass
  filter that passes its input, gives a non-finite filtered output. The notification
  stores that output as the filtered value of the instance (the previous value was zero),
  and the next \<^verbatim>\<open>update_accel\<close> publishes it. Only the filter is reset; the previous
  filtered value is not kept.
\<close>

theorem accel_nonfinite_output_is_published:
  "imu_accel_filtered state0 0 = vzero \<and>
   snd (lpf_apply passthrough (imu_accel_filter state0 0) (Vector3f PInf (Fin 0) (Fin 0)))
     = Vector3f PInf (Fin 0) (Fin 0) \<and>
   is_inf (Vector3f PInf (Fin 0) (Fin 0)) \<and>
   imu_accel_filtered
     (notify_new_accel_raw_sample passthrough env0 0 (Vector3f PInf (Fin 0) (Fin 0)) 0 False state0) 0
     = Vector3f PInf (Fin 0) (Fin 0) \<and>
   imu_accel
     (update_accel passthrough env0 0
        (notify_new_accel_raw_sample passthrough env0 0 (Vector3f PInf (Fin 0) (Fin 0)) 0 False state0)) 0
     = Vector3f PInf (Fin 0) (Fin 0)"
proof -
  have d: "\<not> accel_raw_dropped env0 0 0 state0"
    by (simp add: accel_raw_dropped_def accel_rate_now_def update_accel_sensor_rate_def
        update_sensor_rate_def state0_fields env0_fields)
  note eff = notify_accel_raw_effect [OF state0_live d, of passthrough "Vector3f PInf (Fin 0) (Fin 0)" False]
  have k: "\<not> has_been_killed
     (notify_new_accel_raw_sample passthrough env0 0 (Vector3f PInf (Fin 0) (Fin 0)) 0 False state0) 0"
    using state0_live by (simp add: has_been_killed_def notify_accel_raw_killed)
  show ?thesis
    using k by (simp add: eff update_accel_def publish_accel_def update_accel_filters_def Let_def
        emit_def state0_fields passthrough_fields is_inf_def)
qed

section \<open>Accumulators and the folded time steps\<close>

lemma sum_folded:
  "sum_delta [] = vzero"
  "sum_dt [] = Fin 0"
  "sum_delta (folded r c lg) = vadd (if r then vzero else sum_delta lg) (fst c)"
  "sum_dt (folded r c lg) = fadd (if r then Fin 0 else sum_dt lg) (snd c)"
  by (simp_all add: sum_delta_def sum_dt_def folded_def)

lemma step_keeps_match:
  assumes m: "accumulators_match i (s, glog, alog)"
  shows "accumulators_match i (step D c s, gyro_log D i c s glog, accel_log D i c s alog)"
proof (cases c)
  case (Notify_new_gyro_raw_sample e j gyro sample_us)
  show ?thesis
  proof (cases "has_been_killed s j \<or> gyro_raw_dropped e j sample_us s")
    case True
    then show ?thesis
      using m Notify_new_gyro_raw_sample notify_gyro_raw_dropped [OF True]
      by (auto simp add: accumulators_match_def)
  next
    case False
    then show ?thesis
      using m Notify_new_gyro_raw_sample notify_gyro_raw_effect [of s j e sample_us D gyro]
      by (auto simp add: accumulators_match_def sum_folded Let_def)
  qed
next
  case (Notify_new_delta_angle e j dangle)
  show ?thesis
  proof (cases "has_been_killed s j \<or> flt (gyro_rate_now e j s) (Fin 40)")
    case True
    then show ?thesis
      using m Notify_new_delta_angle notify_delta_angle_dropped [OF True]
      by (auto simp add: accumulators_match_def)
  next
    case False
    then show ?thesis
      using m Notify_new_delta_angle notify_delta_angle_effect [of s j e D dangle]
      by (auto simp add: accumulators_match_def sum_folded Let_def)
  qed
next
  case (Notify_new_accel_raw_sample e j accel sample_us fsync_set)
  show ?thesis
  proof (cases "has_been_killed s j \<or> accel_raw_dropped e j sample_us s")
    case True
    then show ?thesis
      using m Notify_new_accel_raw_sample notify_accel_raw_dropped [OF True]
      by (auto simp add: accumulators_match_def)
  next
    case False
    then show ?thesis
      using m Notify_new_accel_raw_sample notify_accel_raw_effect [of s j e sample_us D accel fsync_set]
      by (auto simp add: accumulators_match_def sum_folded Let_def)
  qed
next
  case (Notify_new_delta_velocity e j dvel)
  show ?thesis
  proof (cases "has_been_killed s j \<or> flt (accel_rate_now e j s) (Fin 40)")
    case True
    then show ?thesis
      using m Notify_new_delta_velocity notify_delta_velocity_dropped [OF True]
      by (auto simp add: accumulators_match_def)
  next
    case False
    then show ?thesis
      using m Notify_new_delta_velocity notify_delta_velocity_effect [of s j e D dvel]
      by (auto simp add: accumulators_match_def sum_folded Let_def)
  qed
next
  case (Update_gyro e j)
  then show ?thesis
    using m by (auto simp add: accumulators_match_def sum_folded update_gyro_def publish_gyro_def
        update_gyro_filters_def Let_def)
next
  case (Update_accel e j)
  then show ?thesis
    using m by (auto simp add: accumulators_match_def sum_folded update_accel_def publish_accel_def
        update_accel_filters_def Let_def emit_def)
qed (use m in \<open>auto simp add: accumulators_match_def sum_folded notify_accel_fifo_reset_def
      notify_gyro_fifo_reset_def set_accel_oversampling_def set_gyro_oversampling_def
      publish_gyro_def publish_accel_def publish_temperature_def inc_accel_error_count_def
      inc_gyro_error_count_def update_primary_untouched Let_def emit_def\<close>)

text \<open>
  C9. Each accumulator pair is the sum of what was folded into it. Take an instance and a
  state whose delta-angle and delta-velocity accumulators and accumulated times are the
  sums of the pairs in the two logs (the state after a drain, with empty logs, is one).
  After any run of calls the accumulators are again the sums of the logs the run leaves:
  the accumulated time is the sum, in order of arrival, of exactly the time steps that the
  accumulation statements folded into the delta accumulator since it was last zeroed. The
  log holds (delta, dt) pairs, so wherever one of the two accumulators is zeroed (the drain
  of a publish, the staleness reset) the other is zeroed in the same call.
\<close>

theorem accumulated_time_is_sum_of_folded_dt:
  "accumulators_match i r \<Longrightarrow> accumulators_match i (run_logged D i cs r)"
proof (induction cs arbitrary: r)
  case Nil
  then show ?case by simp
next
  case (Cons c cs)
  obtain s glog alog where r: "r = (s, glog, alog)"
    by (cases r) auto
  show ?case
    using Cons.prems by (simp add: r Cons.IH step_keeps_match)
qed

lemma run_logged_state: "fst (run_logged D i cs (s, glog, alog)) = run D cs s"
  by (induction cs arbitrary: s glog alog) simp_all

theorem accumulated_time_is_sum_of_folded_dt_witness:
  "accumulators_match 0
     (state_gap, [(Vector3f (Fin 1) (Fin 0) (Fin 0), Fin (5 / 1000))],
                 [(Vector3f (Fin 0) (Fin 0) (Fin 1), Fin (5 / 1000))]) \<and>
   accumulators_match 0
     (run_logged passthrough 0
        [Notify_new_gyro_raw_sample env_next 0 (Vector3f (Fin 0) (Fin 1) (Fin 0)) 4801000,
         Notify_new_accel_raw_sample env0 0 (Vector3f (Fin 0) (Fin 0) (Fin 10)) 0 False]
        (state_gap, [(Vector3f (Fin 1) (Fin 0) (Fin 0), Fin (5 / 1000))],
                    [(Vector3f (Fin 0) (Fin 0) (Fin 1), Fin (5 / 1000))])) \<and>
   gyro_log passthrough 0
      (Notify_new_gyro_raw_sample env_next 0 (Vector3f (Fin 0) (Fin 1) (Fin 0)) 4801000) state_gap
      [(Vector3f (Fin 1) (Fin 0) (Fin 0), Fin (5 / 1000))]
     = [(Vector3f (Fin 1) (Fin 0) (Fin 0), Fin (5 / 1000)),
        (Vector3f (Fin 0) (Fin (1 / 2000)) (Fin (1 / 4000)), Fin (1 / 1000))] \<and>
   imu_delta_angle_acc_dt
      (step passthrough (Notify_new_gyro_raw_sample env_next 0 (Vector3f (Fin 0) (Fin 1) (Fin 0)) 4801000)
         state_gap) 0 = Fin (6 / 1000) \<and>
   accel_log passthrough 0
      (Notify_new_accel_raw_sample env0 0 (Vector3f (Fin 0) (Fin 0) (Fin 10)) 0 False) state_gap
      [(Vector3f (Fin 0) (Fin 0) (Fin 1), Fin (5 / 1000))]
     = [(Vector3f (Fin 0) (Fin 0) (Fin 0), Fin 0)]"
proof -
  have m: "accumulators_match 0
     (state_gap, [(Vector3f (Fin 1) (Fin 0) (Fin 0), Fin (5 / 1000))],
                 [(Vector3f (Fin 0) (Fin 0) (Fin 1), Fin (5 / 1000))])"
    by (simp add: accumulators_match_def sum_delta_def sum_dt_def state_gap_fields vec_ops)
  have g: "\<not> gyro_raw_dropped env_next 0 4801000 state_gap"
    by (simp add: gyro_raw_dropped_def timestamped_def state_gap_fields)
  have a: "\<not> accel_raw_dropped env0 0 0 state_gap"
    by (simp add: accel_raw_dropped_def gap_facts)
  have dt: "gyro_raw_dt env_next 0 4801000 state_gap = Fin (1 / 1000)"
    "accel_raw_dt env0 0 0 state_gap = Fin (1 / 1000)"
    by (simp_all add: gyro_raw_dt_def accel_raw_dt_def timestamped_def state_gap_fields f32_of_nat_def gap_facts)
  have gl: "gyro_log passthrough 0
      (Notify_new_gyro_raw_sample env_next 0 (Vector3f (Fin 0) (Fin 1) (Fin 0)) 4801000) state_gap
      [(Vector3f (Fin 1) (Fin 0) (Fin 0), Fin (5 / 1000))]
     = [(Vector3f (Fin 1) (Fin 0) (Fin 0), Fin (5 / 1000)),
        (Vector3f (Fin 0) (Fin (1 / 2000)) (Fin (1 / 4000)), Fin (1 / 1000))]"
    using g dt by (simp add: gap_facts folded_def coning_correction_spec state_gap_fields vec_ops Let_def
        stale_def env_next_fields)
  have al: "accel_log passthrough 0
      (Notify_new_accel_raw_sample env0 0 (Vector3f (Fin 0) (Fin 0) (Fin 10)) 0 False) state_gap
      [(Vector3f (Fin 0) (Fin 0) (Fin 1), Fin (5 / 1000))]
     = [(Vector3f (Fin 0) (Fin 0) (Fin 0), Fin 0)]"
    using a dt by (simp add: gap_facts folded_def vec_ops Let_def stale_def env0_fields state_gap_fields)
  have acc: "imu_delta_angle_acc_dt
      (step passthrough (Notify_new_gyro_raw_sample env_next 0 (Vector3f (Fin 0) (Fin 1) (Fin 0)) 4801000)
         state_gap) 0 = Fin (6 / 1000)"
    using g dt by (simp add: notify_gyro_raw_effect gap_facts state_gap_fields stale_def env_next_fields)
  show ?thesis
    using m gl al acc
      accumulated_time_is_sum_of_folded_dt [OF m, of passthrough
        "[Notify_new_gyro_raw_sample env_next 0 (Vector3f (Fin 0) (Fin 1) (Fin 0)) 4801000,
          Notify_new_accel_raw_sample env0 0 (Vector3f (Fin 0) (Fin 0) (Fin 10)) 0 False]"]
    by blast
qed

end
